theory Spec2Isabelle
  imports Main
begin

section \<open>The artifact download cache of app-builder (pkg/download/artifactDownloader.go)\<close>

text \<open>
  The Go file is embedded function by function. Go strings are byte sequences, here
  \<^typ>\<open>string\<close>. A Go function returning \<open>(string, error)\<close> returns a \<open>result\<close>; a run-time
  panic is a result of its own. Every call that leaves the process (file system, network,
  child processes, the logger) is answered by the \<open>world\<close> record and written to the list of
  events that the function returns next to its result, in the order of the calls.
\<close>

subsection \<open>Errors, results and events\<close>

datatype go_error =
    NotExist string string
  | OsError string
  | Errorf string
  | WithStack go_error
  | WithMessage go_error string

text \<open>
  \<open>NotExist op path\<close> is the \<open>*PathError\<close> of the operation \<open>op\<close> on \<open>path\<close> whose cause is
  ENOENT, \<open>OsError\<close> any other error of the operating system or of a collaborator.
  \<open>os.IsNotExist\<close> looks at the error it is given, not through the wrappers of the
  \<open>errors\<close> package.
\<close>

fun os_IsNotExist :: "go_error \<Rightarrow> bool" where
  "os_IsNotExist (NotExist opn p) = True"
| "os_IsNotExist e = False"

datatype result = Return string "go_error option" | Panic string

datatype level = Debug | Info | Warn

datatype log_value = LStr string | LErr go_error

type_synonym log_fields = "(string \<times> log_value) list"

datatype event =
    EvStat string
  | EvMkdirAll string
  | EvTempDir string string
  | EvTempFile string string
  | EvDownload string string string
  | EvUnpackTarXz string string
  | EvExec string "string list" string
  | EvRemove string
  | EvRename string string
  | EvRemoveAll string
  | EvLog level string log_fields

subsection \<open>The world outside the process\<close>

text \<open>
  One field for each call of the standard library or of a collaborator whose answer depends
  on the machine: the environment, the platform constants, the home directory, the
  platform's path functions (\<open>filepath.Join\<close> and \<open>filepath.Base\<close> use the separator of the
  operating system), Unicode lower-casing, the file system calls, \<open>util.TempDir\<close> and
  \<open>util.TempFile\<close>, the downloader, the two-process pipeline that \<open>unpackTarXz\<close> runs and
  the child process of the 7za extraction. \<open>os_Stat\<close> answers \<open>Inr isDir\<close> for a path that
  exists. Each of these calls happens at most once in a run, so a function of the call's
  arguments describes every behaviour of the machine.
\<close>

record world =
  os_Getenv :: "string \<Rightarrow> string"
  runtime_GOOS :: string
  runtime_GOARCH :: string
  homedir_Dir :: "go_error + string"
  os_TempDir :: string
  filepath_Join :: "string list \<Rightarrow> string"
  filepath_Base :: "string \<Rightarrow> string"
  strings_ToLower :: "string \<Rightarrow> string"
  os_Stat :: "string \<Rightarrow> go_error + bool"
  os_MkdirAll :: "string \<Rightarrow> go_error option"
  util_TempDir :: "string \<Rightarrow> string \<Rightarrow> go_error + string"
  util_TempFile :: "string \<Rightarrow> string \<Rightarrow> go_error + string"
  downloader_Download :: "string \<Rightarrow> string \<Rightarrow> string \<Rightarrow> go_error option"
  pipeline_TarXz :: "string \<Rightarrow> string \<Rightarrow> go_error option"
  exec_CombinedOutput :: "string \<Rightarrow> string list \<Rightarrow> string \<Rightarrow> string \<times> go_error option"
  os_Remove :: "string \<Rightarrow> go_error option"
  os_Rename :: "string \<Rightarrow> string \<Rightarrow> go_error option"
  os_RemoveAll :: "string \<Rightarrow> go_error option"

subsection \<open>The string and path functions of the standard library\<close>

definition strings_HasPrefix :: "string \<Rightarrow> string \<Rightarrow> bool" where
  "strings_HasPrefix s pre \<longleftrightarrow> length s \<ge> length pre \<and> take (length pre) s = pre"

definition strings_HasSuffix :: "string \<Rightarrow> string \<Rightarrow> bool" where
  "strings_HasSuffix s suf \<longleftrightarrow>
     length s \<ge> length suf \<and> drop (length s - length suf) s = suf"

definition strings_TrimSuffix :: "string \<Rightarrow> string \<Rightarrow> string" where
  "strings_TrimSuffix s suf =
     (if strings_HasSuffix s suf then take (length s - length suf) s else s)"

text \<open>\<open>strings.Index\<close>: the index of the first occurrence of \<open>sep\<close> in \<open>s\<close>, or -1.\<close>

fun strings_Index :: "string \<Rightarrow> string \<Rightarrow> int" where
  "strings_Index [] sep = (if sep = [] then 0 else - 1)"
| "strings_Index (c # cs) sep =
     (if strings_HasPrefix (c # cs) sep then 0
      else (let i = strings_Index cs sep in if i < 0 then - 1 else i + 1))"

definition strings_Contains :: "string \<Rightarrow> string \<Rightarrow> bool" where
  "strings_Contains s substr \<longleftrightarrow> strings_Index s substr \<ge> 0"

text \<open>
  The slice expression \<open>s[0:i]\<close> with an \<open>int\<close> index: it panics unless \<open>0 \<le> i \<le> len(s)\<close>,
  which is the value \<open>None\<close>.
\<close>

definition slice_to :: "string \<Rightarrow> int \<Rightarrow> string option" where
  "slice_to s i = (if 0 \<le> i \<and> i \<le> int (length s) then Some (take (nat i) s) else None)"

text \<open>
  \<open>path.Base\<close> and \<open>path.Ext\<close> of the slash-separated \<open>path\<close> package: \<open>Base\<close> strips the
  trailing slashes, keeps what follows the last slash, and answers \<open>.\<close> for the empty path
  and \<open>/\<close> for a path of slashes only; \<open>Ext\<close> is the suffix that begins at the last dot of
  the last element, empty when that element has no dot.
\<close>

definition strip_trailing_slashes :: "string \<Rightarrow> string" where
  "strip_trailing_slashes p = rev (dropWhile (\<lambda>c. c = CHR ''/'') (rev p))"

definition last_element :: "string \<Rightarrow> string" where
  "last_element p = rev (takeWhile (\<lambda>c. c \<noteq> CHR ''/'') (rev p))"

definition path_Base :: "string \<Rightarrow> string" where
  "path_Base p =
     (if p = [] then ''.''
      else (let q = last_element (strip_trailing_slashes p) in if q = [] then ''/'' else q))"

definition path_Ext :: "string \<Rightarrow> string" where
  "path_Ext p =
     (let e = last_element p in
      if CHR ''.'' \<in> set e then CHR ''.'' # rev (takeWhile (\<lambda>c. c \<noteq> CHR ''.'') (rev e))
      else [])"

text \<open>
  Modelled from the spec: \<open>util.GetEnvOrDefault\<close> of pkg/util is not part of the file; the
  archive tool's path "is configurable via an environment override, defaulting to a
  conventional name".
\<close>

definition util_GetEnvOrDefault :: "world \<Rightarrow> string \<Rightarrow> string \<Rightarrow> string" where
  "util_GetEnvOrDefault w envName defaultValue =
     (let r = os_Getenv w envName in if length r = 0 then defaultValue else r)"

subsection \<open>GetCacheDirectory\<close>

definition system32 :: string where
  "system32 = CHR 0x5C # ''windows'' @ CHR 0x5C # ''system32'' @ [CHR 0x5C]"

definition GetCacheDirectory :: "world \<Rightarrow> string \<Rightarrow> go_error + string" where
  "GetCacheDirectory w dirName =
     (let env = os_Getenv w ''ELECTRON_BUILDER_CACHE'' in
      if length env \<noteq> 0 then Inr env
      else if runtime_GOOS w = ''darwin'' then
        (case homedir_Dir w of
           Inl err \<Rightarrow> Inl (WithStack err)
         | Inr userHomeDir \<Rightarrow>
             Inr (filepath_Join w [userHomeDir, ''Library'', ''Caches'', dirName]))
      else
        (let localAppData = os_Getenv w ''LOCALAPPDATA'' in
         if runtime_GOOS w = ''windows'' \<and> length localAppData \<noteq> 0 then
           (if strings_Contains (strings_ToLower w localAppData) system32
               \<or> strings_ToLower w (os_Getenv w ''USERNAME'') = ''system''
            then Inr (filepath_Join w [os_TempDir w, dirName @ ''-cache''])
            else Inr (filepath_Join w [localAppData, dirName, ''cache'']))
         else
           (case homedir_Dir w of
              Inl err \<Rightarrow> Inl (WithStack err)
            | Inr userHomeDir \<Rightarrow>
                Inr (filepath_Join w [userHomeDir, ''.cache'', ''electron-builder'']))))"

subsection \<open>DownloadArtifact\<close>

text \<open>
  The body of \<open>DownloadArtifact\<close> is embedded in pieces, each a run of consecutive lines
  of the function that ends by handing over to the next piece. A piece is defined before
  the piece that calls it, so the last lines of the function come first.

  \<open>unpackTarXz\<close> starts two 7za processes joined by a pipe that a goroutine copies, waits
  for both and makes the extracted binary executable. Each failure leaves the function as
  \<open>errors.WithStack(err)\<close>. The pipeline runs outside the process: the world answers for it
  with the first error met, if any.
\<close>

definition unpackTarXz :: "world \<Rightarrow> string \<Rightarrow> string \<Rightarrow> go_error option \<times> event list" where
  "unpackTarXz w archiveName unpackDir =
     (map_option WithStack (pipeline_TarXz w archiveName unpackDir),
      [EvUnpackTarXz archiveName unpackDir])"

text \<open>
  The events of a call are put in front of the events of what follows it.
\<close>

definition emit :: "event list \<Rightarrow> 'a \<times> event list \<Rightarrow> 'a \<times> event list" where
  "emit evs r = (fst r, evs @ snd r)"

text \<open>
  Lines 111 to 125 of \<open>DownloadArtifact\<close>: the archive is unpacked by \<open>unpackTarXz\<close> for a
  \<open>node\<close> request and by one run of 7za otherwise, whose output is logged when it succeeds.
\<close>

definition DownloadArtifact_unpack ::
  "world \<Rightarrow> bool \<Rightarrow> string \<Rightarrow> string \<Rightarrow> string \<Rightarrow> go_error option \<times> event list"
where
  "DownloadArtifact_unpack w isNodeJsArtifact archiveName tempUnpackDir cacheDir =
     (if isNodeJsArtifact then unpackTarXz w archiveName tempUnpackDir
      else
        (let program = util_GetEnvOrDefault w ''SZA_PATH'' ''7za'';
             args = [''x'', ''-bd'', archiveName, ''-o'' @ tempUnpackDir]
         in emit [EvExec program args cacheDir]
              (case exec_CombinedOutput w program args cacheDir of
                 (output, Some err) \<Rightarrow> (Some err, [])
               | (output, None) \<Rightarrow> (None, [EvLog Debug output []]))))"

definition race_warning :: string where
  "race_warning =
     ''cannot move downloaded into final location (another process downloaded faster?)''"

text \<open>
  Lines 132 to 148: the unpacked directory (for a \<open>.tar.7z\<close> URL the directory of the same
  name inside it) is renamed to \<open>filePath\<close>; a failure of the rename is logged as a
  warning, and \<open>filePath\<close> is returned with a nil error.
\<close>

definition DownloadArtifact_publish ::
  "world \<Rightarrow> string \<Rightarrow> string \<Rightarrow> string \<Rightarrow> log_fields \<Rightarrow> result \<times> event list"
where
  "DownloadArtifact_publish w url tempUnpackDir filePath logFields =
     (let (renameErr, evs) =
            (if strings_HasSuffix url ''.tar.7z'' then
               (let src = filepath_Join w [tempUnpackDir, filepath_Base w tempUnpackDir]
                in (os_Rename w src filePath, [EvRename src filePath, EvRemoveAll tempUnpackDir]))
             else (os_Rename w tempUnpackDir filePath, [EvRename tempUnpackDir filePath]));
          warning =
            (case renameErr of
               Some err \<Rightarrow>
                 [EvLog Warn race_warning
                   (logFields @ [(''tempUnpackDir'', LStr tempUnpackDir), (''error'', LErr err)])]
             | None \<Rightarrow> [])
      in (Return filePath None, evs @ warning @ [EvLog Debug ''downloaded'' logFields]))"

text \<open>
  Lines 86 to 130, what the function does after a cache miss: create the cache directory,
  take a temporary directory, download the archive beside it, unpack it and remove it.
  Each failure ends the call with the error, wrapped by \<open>errors.WithStack\<close>.
\<close>

definition DownloadArtifact_stage ::
  "world \<Rightarrow> bool \<Rightarrow> string \<Rightarrow> string \<Rightarrow> string \<Rightarrow> string \<Rightarrow> log_fields \<Rightarrow> result \<times> event list"
where
  "DownloadArtifact_stage w isNodeJsArtifact url checksum cacheDir filePath logFields =
     emit [EvMkdirAll cacheDir]
     (case os_MkdirAll w cacheDir of
        Some err \<Rightarrow> (Return [] (Some (WithStack err)), [])
      | None \<Rightarrow>
     emit [EvLog Info ''downloading'' (logFields @ [(''url'', LStr url)]), EvTempDir cacheDir []]
     (case util_TempDir w cacheDir [] of
        Inl err \<Rightarrow> (Return [] (Some (WithStack err)), [])
      | Inr tempUnpackDir \<Rightarrow>
     (let archiveName =
            (if isNodeJsArtifact then tempUnpackDir @ ''.tar.xz'' else tempUnpackDir @ ''.7z'')
      in
     emit [EvDownload url archiveName checksum]
     (case downloader_Download w url archiveName checksum of
        Some err \<Rightarrow> (Return [] (Some (WithStack err)), [])
      | None \<Rightarrow>
     (let unpacked = DownloadArtifact_unpack w isNodeJsArtifact archiveName tempUnpackDir cacheDir
      in
     emit (snd unpacked)
     (case fst unpacked of
        Some err \<Rightarrow> (Return [] (Some (WithStack err)), [])
      | None \<Rightarrow>
     emit [EvRemove archiveName]
     (case os_Remove w archiveName of
        Some err \<Rightarrow> (Return [] (Some (WithStack err)), [])
      | None \<Rightarrow> DownloadArtifact_publish w url tempUnpackDir filePath logFields)))))))"

text \<open>
  Lines 72 to 84, the cache lookup: a path that exists and is a directory, or whose name
  ends in \<open>.tar\<close>, is returned as it is; an error of \<open>os.Stat\<close> other than "does not
  exist" ends the call; in every other case the artifact is staged.
\<close>

definition DownloadArtifact_lookup ::
  "world \<Rightarrow> bool \<Rightarrow> string \<Rightarrow> string \<Rightarrow> string \<Rightarrow> string \<Rightarrow> result \<times> event list"
where
  "DownloadArtifact_lookup w isNodeJsArtifact url checksum cacheDir filePath =
     (let logFields = [(''path'', LStr filePath)];
          stage = DownloadArtifact_stage w isNodeJsArtifact url checksum cacheDir filePath logFields
      in emit [EvStat filePath]
           (case os_Stat w filePath of
              Inr isDir \<Rightarrow>
                if isDir \<or> strings_HasSuffix filePath ''.tar'' then
                  (Return filePath None, [EvLog Debug ''found existing'' logFields])
                else stage
            | Inl err \<Rightarrow>
                if \<not> os_IsNotExist err then
                  (Return [] (Some (WithMessage err
                     (''error during cache check for path '' @ filePath))), [])
                else stage))"

text \<open>
  Lines 46 to 70: the rewriting of a \<open>node\<close> request, the directory name taken from the URL
  when the name is empty, and the cache path. \<open>strings.Index\<close> never exceeds the length of
  the string, so the slice \<open>dirName[0:hyphenIndex]\<close> of line 66 is a \<open>take\<close>; the slice of
  line 49 panics when the index is -1.
\<close>

definition DownloadArtifact_resolve ::
  "world \<Rightarrow> string \<Rightarrow> string \<Rightarrow> string \<Rightarrow> result \<times> event list"
where
  "DownloadArtifact_resolve w dirName0 url0 checksum =
     (let isNodeJsArtifact = (dirName0 = ''node'') in
      case (if isNodeJsArtifact then
              (let versionAndArch = url0 in
               case slice_to versionAndArch (strings_Index versionAndArch ''-'') of
                 None \<Rightarrow> None
               | Some version \<Rightarrow>
                   Some (dirName0 @ ''-'' @ versionAndArch,
                         ''https://nodejs.org/dist/v'' @ version @ ''/node-v'' @ versionAndArch
                           @ ''.tar.xz''))
            else Some (dirName0, url0)) of
        None \<Rightarrow> (Panic ''slice bounds out of range'', [])
      | Some (dirName1, url) \<Rightarrow>
     (let dirName =
            (if length dirName1 = 0 then
               (let fileName = path_Base url
                in strings_TrimSuffix fileName (path_Ext fileName))
             else dirName1) in
      case GetCacheDirectory w ''electron-builder'' of
        Inl err \<Rightarrow> (Return [] (Some (WithStack err)), [])
      | Inr cacheDir0 \<Rightarrow>
     (let hyphenIndex = strings_Index dirName ''-'';
          cacheDir =
            (if hyphenIndex > 0 then filepath_Join w [cacheDir0, take (nat hyphenIndex) dirName]
             else filepath_Join w [cacheDir0, dirName]);
          filePath = filepath_Join w [cacheDir, dirName]
      in DownloadArtifact_lookup w isNodeJsArtifact url checksum cacheDir filePath)))"

subsection \<open>The tool catalogue\<close>

text \<open>
  A Go map of strings answers the empty string for a key it does not hold, also when the map
  is nil.
\<close>

record ToolDescriptor =
  name :: string
  version :: string
  repository :: string
  mac :: string
  linux :: "string \<rightharpoonup> string"
  win :: "string \<rightharpoonup> string"

definition map_index :: "(string \<rightharpoonup> string) \<Rightarrow> string \<Rightarrow> string" where
  "map_index m k = (case m k of None \<Rightarrow> [] | Some v \<Rightarrow> v)"

definition zstd_descriptor :: ToolDescriptor where
  "zstd_descriptor =
     \<lparr> name = ''zstd'', version = ''1.3.4'', repository = [],
       mac = ''pLrLk2FAkop3C2drZ7+oxyGPQJjNMzUmVf0m3ZCc1a3WIEjYJNpq9UYvfBU/dl2CsRAchlKvoIOWRxRIdX0ugA=='',
       linux = [''x64'' \<mapsto>
         ''C1TcuuN/0nNvHMwfkKmE8rgsDxkeSbGoV4DMSf4kIJIO4mNp+PUayYeBf4h3usScsWfvX70Jvg5v3yt1FySTDg==''],
       win = [''ia32'' \<mapsto>
         ''URJhIibWZUEy9USYlHBjc6bgEp7KP+hMJl/YWsssMTt6umxgk+niyc5meKs2XwOwBsvK6KsP+Qr/BawK7CdWVQ=='',
         ''x64'' \<mapsto>
         ''S4RtWJwccUQfr/UQeZuWTJyJvU5uaYaP3rGT6e55epuAJx+fuljbJTBw+n8da0oRLIw0essEjGHkNafWgmKt1w==''] \<rparr>"

definition releases :: string where
  "releases = ''https://github.com/electron-userland/electron-builder-binaries/releases/download/''"

lemma hyphenated_neq: "CHR ''-'' \<notin> set s \<Longrightarrow> a @ CHR ''-'' # b \<noteq> s"
  by auto

text \<open>
  \<open>DownloadArtifact\<close> hands the names \<open>fpm\<close> and \<open>zstd\<close> to \<open>DownloadFpm\<close> and \<open>DownloadZstd\<close>,
  which call \<open>DownloadArtifact\<close> again with a name of the catalogue: the four functions are
  mutually recursive. The statement after the \<open>if\<close> of \<open>DownloadFpm\<close> (line 310) is never
  reached.
\<close>

function DownloadArtifact :: "world \<Rightarrow> string \<Rightarrow> string \<Rightarrow> string \<Rightarrow> result \<times> event list"
  and DownloadFpm :: "world \<Rightarrow> result \<times> event list"
  and DownloadZstd :: "world \<Rightarrow> string \<Rightarrow> result \<times> event list"
  and DownloadTool :: "world \<Rightarrow> ToolDescriptor \<Rightarrow> string \<Rightarrow> result \<times> event list"
where
  "DownloadArtifact w dirName url checksum =
     (if dirName = ''fpm'' then DownloadFpm w
      else if dirName = ''zstd'' then DownloadZstd w (runtime_GOOS w)
      else DownloadArtifact_resolve w dirName url checksum)"
| "DownloadFpm w =
     (if runtime_GOOS w = ''linux'' then
        (let (checksum, archSuffix) =
               (if runtime_GOARCH w = ''amd64'' then
                  (''fcKdXPJSso3xFs5JyIJHG1TfHIRTGDP0xhSBGZl7pPZlz4/TJ4rD/q3wtO/uaBBYeX0qFFQAFjgu1uJ6HLHghA=='',
                   ''-x86_64'')
                else
                  (''OnzvBdsHE5djcXcAT87rwbnZwS789ZAd2ehuIO42JWtBAHNzXKxV4o/24XFX5No4DJWGO2YSGQttW+zn7d/4rQ=='',
                   ''-x86''));
             name = ''fpm-1.9.3-2.3.1-linux'' @ archSuffix
         in DownloadArtifact w name (releases @ name @ ''/'' @ name @ ''.7z'') checksum)
      else
        DownloadArtifact w ''fpm-1.9.3-20150715-2.2.2-mac''
          (releases @ ''fpm-1.9.3-20150715-2.2.2-mac/fpm-1.9.3-20150715-2.2.2-mac.7z'')
          ''oXfq+0H2SbdrbMik07mYloAZ8uHrmf6IJk+Q3P1kwywuZnKTXSaaeZUJNlWoVpRDWNu537YxxpBQWuTcF+6xfw=='')"
| "DownloadZstd w osName = DownloadTool w zstd_descriptor osName"
| "DownloadTool w descriptor osName =
     (let arch0 = runtime_GOARCH w;
          arch = (if arch0 = ''arm'' then ''armv7''
                  else if arch0 = ''arm64'' then ''armv8''
                  else if arch0 = ''amd64'' then ''x64''
                  else arch0);
          (checksum, archQualifier, osQualifier) =
            (if osName = ''darwin'' then (mac descriptor, [], ''mac'')
             else if osName = ''win32'' then (map_index (win descriptor) arch, ''-'' @ arch, ''win'')
             else (map_index (linux descriptor) arch, ''-'' @ arch, ''linux''))
      in if checksum = [] then
           (Return [] (Some (Errorf (''Checksum not specified for '' @ osName @ '':'' @ arch))), [])
         else
           (let repository' =
                  (if repository descriptor = [] then ''electron-userland/electron-builder-binaries''
                   else repository descriptor);
                tagPrefix = (if repository descriptor = [] then name descriptor @ ''-'' else ''v'');
                osAndArch = osQualifier @ archQualifier
            in DownloadArtifact w
                 (name descriptor @ ''-'' @ version descriptor @ ''-'' @ osAndArch)
                 (''https://github.com/'' @ repository' @ ''/releases/download/'' @ tagPrefix
                    @ version descriptor @ ''/'' @ name descriptor @ ''-v'' @ version descriptor
                    @ ''-'' @ osAndArch @ ''.7z'')
                 checksum))"
  by pat_completeness auto

termination
  apply (relation "measure (\<lambda>x. case x of
            Inl (Inl (w, dirName, url, checksum)) \<Rightarrow>
              (if dirName = ''fpm'' \<or> dirName = ''zstd'' then 4 else 0)
          | Inl (Inr w) \<Rightarrow> 1
          | Inr (Inl (w, osName)) \<Rightarrow> 3
          | Inr (Inr (w, descriptor, osName)) \<Rightarrow> 2)")
  apply (simp_all add: hyphenated_neq)
  done

subsection \<open>DownloadCompressedArtifact\<close>

text \<open>
  Lines 226 to 248, after a cache miss: the file is downloaded to a temporary file in the
  cache directory, which is then renamed to \<open>filePath\<close>. A failure of the rename is
  returned as an error.
\<close>

definition DownloadCompressedArtifact_fetch ::
  "world \<Rightarrow> string \<Rightarrow> string \<Rightarrow> string \<Rightarrow> string \<Rightarrow> log_fields \<Rightarrow> result \<times> event list"
where
  "DownloadCompressedArtifact_fetch w url checksum cacheDir filePath logFields =
     emit [EvMkdirAll cacheDir]
     (case os_MkdirAll w cacheDir of
        Some err \<Rightarrow> (Return [] (Some (WithStack err)), [])
      | None \<Rightarrow>
     emit [EvTempFile cacheDir ''.snap'']
     (case util_TempFile w cacheDir ''.snap'' of
        Inl err \<Rightarrow> (Return [] (Some (WithStack err)), [])
      | Inr tempFile \<Rightarrow>
     emit [EvLog Info ''downloading'' (logFields @ [(''url'', LStr url)]),
           EvDownload url tempFile checksum]
     (case downloader_Download w url tempFile checksum of
        Some err \<Rightarrow> (Return [] (Some (WithStack err)), [])
      | None \<Rightarrow>
     emit [EvLog Debug ''downloaded'' logFields, EvRename tempFile filePath]
     (case os_Rename w tempFile filePath of
        Some err \<Rightarrow> (Return [] (Some (WithStack err)), [])
      | None \<Rightarrow> (Return filePath None, [])))))"

text \<open>Lines 202 to 224: the cache path and the cache lookup; every path that exists is a hit.\<close>

definition DownloadCompressedArtifact ::
  "world \<Rightarrow> string \<Rightarrow> string \<Rightarrow> string \<Rightarrow> result \<times> event list"
where
  "DownloadCompressedArtifact w subDir url checksum =
     (case GetCacheDirectory w ''electron-builder'' of
        Inl err \<Rightarrow> (Return [] (Some (WithStack err)), [])
      | Inr cacheDir0 \<Rightarrow>
     (let cacheDir = (if length subDir \<noteq> 0 then filepath_Join w [cacheDir0, subDir] else cacheDir0);
          filePath = filepath_Join w [cacheDir, path_Base url];
          logFields = [(''file'', LStr filePath)]
      in
     emit [EvStat filePath]
     (case os_Stat w filePath of
        Inr isDir \<Rightarrow> (Return filePath None, [EvLog Debug ''found existing'' logFields])
      | Inl statErr \<Rightarrow>
          if \<not> os_IsNotExist statErr then
            (Return [] (Some (WithMessage statErr
               (''error during cache check for path '' @ filePath))), [])
          else DownloadCompressedArtifact_fetch w url checksum cacheDir filePath logFields)))"

subsection \<open>Machines for the examples\<close>

text \<open>
  \<open>slash_join\<close> joins the non-empty elements with a slash, as \<open>filepath.Join\<close> does on a
  Unix system for elements that are clean already (Go cleans the joined path, which leaves
  the paths of the examples as they are). \<open>cold_machine\<close> is a Linux machine on amd64 whose
  cache, relocated to \<open>/cache\<close>, is empty and where every step succeeds; the other machines
  differ from it in one answer each.
\<close>

fun slash_concat :: "string list \<Rightarrow> string" where
  "slash_concat [] = []"
| "slash_concat [x] = x"
| "slash_concat (x # y # ys) = x @ ''/'' @ slash_concat (y # ys)"

definition slash_join :: "string list \<Rightarrow> string" where
  "slash_join elems = slash_concat (filter (\<lambda>e. e \<noteq> []) elems)"

definition cold_machine :: world where
  "cold_machine =
     \<lparr> os_Getenv = (\<lambda>k. if k = ''ELECTRON_BUILDER_CACHE'' then ''/cache'' else []),
       runtime_GOOS = ''linux'',
       runtime_GOARCH = ''amd64'',
       homedir_Dir = Inr ''/home/dev'',
       os_TempDir = ''/tmp'',
       filepath_Join = slash_join,
       filepath_Base = path_Base,
       strings_ToLower = (\<lambda>s. s),
       os_Stat = (\<lambda>p. Inl (NotExist ''stat'' p)),
       os_MkdirAll = (\<lambda>p. None),
       util_TempDir = (\<lambda>dir pre. Inr (slash_join [dir, pre @ ''t1''])),
       util_TempFile = (\<lambda>dir suf. Inr (slash_join [dir, ''t1'' @ suf])),
       downloader_Download = (\<lambda>u dst sum. None),
       pipeline_TarXz = (\<lambda>archive dir. None),
       exec_CombinedOutput = (\<lambda>prog args dir. ([], None)),
       os_Remove = (\<lambda>p. None),
       os_Rename = (\<lambda>src dst. None),
       os_RemoveAll = (\<lambda>p. None) \<rparr>"

text \<open>A concurrent process has filled the destination: the final rename fails.\<close>

definition raced_machine :: world where
  "raced_machine = cold_machine \<lparr> os_Rename := (\<lambda>src dst. Some (OsError ''file exists'')) \<rparr>"

text \<open>
  The archive is gone when \<open>os.Remove\<close> is called: \<open>os.Remove\<close> answers the \<open>*PathError\<close> of
  a path that does not exist.
\<close>

definition vanished_machine :: world where
  "vanished_machine = cold_machine \<lparr> os_Remove := (\<lambda>p. Some (NotExist ''remove'' p)) \<rparr>"

text \<open>Every path exists and is a directory: each lookup is a hit.\<close>

definition warm_machine :: world where
  "warm_machine = cold_machine \<lparr> os_Stat := (\<lambda>p. Inr True) \<rparr>"

text \<open>The cache cannot be read: \<open>os.Stat\<close> fails with an error other than ENOENT.\<close>

definition locked_machine :: world where
  "locked_machine = cold_machine \<lparr> os_Stat := (\<lambda>p. Inl (OsError ''permission denied'')) \<rparr>"

text \<open>A Linux machine with the cache in its default place, and a Mac.\<close>

definition home_machine :: world where
  "home_machine = cold_machine \<lparr> os_Getenv := (\<lambda>k. []) \<rparr>"

definition mac_machine :: world where
  "mac_machine = cold_machine \<lparr> os_Getenv := (\<lambda>k. []), runtime_GOOS := ''darwin'' \<rparr>"

subsection \<open>Words of the claims\<close>

text \<open>
  Shorthands for the statements below: the log line of a cache hit, the error of a failed
  cache check, the URL of a \<open>node\<close> archive, the directory name of lines 54 to 57, the
  family directory of lines 64 to 69, the architecture names and the checksum table of
  \<open>DownloadTool\<close>, what it means that a run works on the path \<open>p\<close>: the cache
  lookup checks \<open>p\<close> before anything else is done, and \<open>p\<close> is the only path the run can
  return with a nil error, and that in a list of events the event \<open>x\<close> occurs and the
  event \<open>y\<close> occurs after it.
\<close>

fun happens_before :: "event \<Rightarrow> event \<Rightarrow> event list \<Rightarrow> bool" where
  "happens_before x y [] = False"
| "happens_before x y (z # zs) = ((z = x \<and> y \<in> set zs) \<or> happens_before x y zs)"

definition found_existing :: "string \<Rightarrow> event" where
  "found_existing filePath = EvLog Debug ''found existing'' [(''path'', LStr filePath)]"

definition cache_check_error :: "go_error \<Rightarrow> string \<Rightarrow> go_error" where
  "cache_check_error err filePath =
     WithMessage err (''error during cache check for path '' @ filePath)"

definition node_url :: "string \<Rightarrow> string" where
  "node_url versionAndArch =
     ''https://nodejs.org/dist/v'' @ takeWhile (\<lambda>c. c \<noteq> CHR ''-'') versionAndArch
       @ ''/node-v'' @ versionAndArch @ ''.tar.xz''"

definition family_path :: "world \<Rightarrow> string \<Rightarrow> string \<Rightarrow> string" where
  "family_path w cacheRoot dirName =
     (if CHR ''-'' \<in> set dirName \<and> hd dirName \<noteq> CHR ''-''
      then filepath_Join w [cacheRoot, takeWhile (\<lambda>c. c \<noteq> CHR ''-'') dirName]
      else filepath_Join w [cacheRoot, dirName])"

definition derived_name :: "string \<Rightarrow> string \<Rightarrow> string" where
  "derived_name dirName url =
     (if dirName = [] then strings_TrimSuffix (path_Base url) (path_Ext (path_Base url))
      else dirName)"

definition normalized_arch :: "string \<Rightarrow> string" where
  "normalized_arch a =
     (if a = ''arm'' then ''armv7'' else if a = ''arm64'' then ''armv8''
      else if a = ''amd64'' then ''x64'' else a)"

definition os_qualifier :: "string \<Rightarrow> string" where
  "os_qualifier osName =
     (if osName = ''darwin'' then ''mac'' else if osName = ''win32'' then ''win'' else ''linux'')"

definition registered_checksum :: "ToolDescriptor \<Rightarrow> string \<Rightarrow> string \<Rightarrow> string" where
  "registered_checksum descriptor osQualifier arch =
     (if osQualifier = ''mac'' then mac descriptor
      else if osQualifier = ''win'' then map_index (win descriptor) arch
      else map_index (linux descriptor) arch)"

definition final_path_of :: "result \<times> event list \<Rightarrow> string \<Rightarrow> bool" where
  "final_path_of run p \<longleftrightarrow>
     (\<exists>rest. snd run = EvStat p # rest) \<and> (\<forall>q. fst run = Return q None \<longrightarrow> q = p)"

section \<open>Properties\<close>

declare DownloadArtifact.simps [simp del] DownloadFpm.simps [simp del]
  DownloadZstd.simps [simp del] DownloadTool.simps [simp del]

lemma fst_emit [simp]: "fst (emit evs r) = fst r"
  by (simp add: emit_def)

lemma snd_emit [simp]: "snd (emit evs r) = evs @ snd r"
  by (simp add: emit_def)

subsection \<open>The rename into the cache\<close>

lemma publish_result:
  "fst (DownloadArtifact_publish w url tmp filePath lf) = Return filePath None"
  by (simp add: DownloadArtifact_publish_def Let_def split: prod.split)

lemma publish_rename:
  "EvRename src dst \<in> set (snd (DownloadArtifact_publish w url tmp filePath lf)) \<longleftrightarrow>
     dst = filePath \<and>
     src = (if strings_HasSuffix url ''.tar.7z'' then filepath_Join w [tmp, filepath_Base w tmp]
            else tmp)"
  by (auto simp add: DownloadArtifact_publish_def Let_def split: option.split)

lemma publish_warning:
  "EvLog Warn m flds \<in> set (snd (DownloadArtifact_publish w url tmp filePath lf)) \<longleftrightarrow>
     (\<exists>err. os_Rename w
         (if strings_HasSuffix url ''.tar.7z'' then filepath_Join w [tmp, filepath_Base w tmp]
          else tmp) filePath = Some err \<and>
        m = race_warning \<and>
        flds = lf @ [(''tempUnpackDir'', LStr tmp), (''error'', LErr err)])"
  by (auto simp add: DownloadArtifact_publish_def Let_def split: option.split)

lemma publish_other [simp]:
  "EvStat p \<notin> set (snd (DownloadArtifact_publish w url tmp filePath lf))"
  "EvRemove a \<notin> set (snd (DownloadArtifact_publish w url tmp filePath lf))"
  "EvDownload u a c \<notin> set (snd (DownloadArtifact_publish w url tmp filePath lf))"
  "EvExec prog args dir \<notin> set (snd (DownloadArtifact_publish w url tmp filePath lf))"
  "EvUnpackTarXz a d \<notin> set (snd (DownloadArtifact_publish w url tmp filePath lf))"
  by (simp_all add: DownloadArtifact_publish_def Let_def split: option.split)

subsection \<open>The unpacking\<close>

lemma unpack_other [simp]:
  "EvRename src dst \<notin> set (snd (DownloadArtifact_unpack w n a tmp cd))"
  "EvStat p \<notin> set (snd (DownloadArtifact_unpack w n a tmp cd))"
  "EvRemove a' \<notin> set (snd (DownloadArtifact_unpack w n a tmp cd))"
  "EvDownload u a' c \<notin> set (snd (DownloadArtifact_unpack w n a tmp cd))"
  "EvLog Warn m flds \<notin> set (snd (DownloadArtifact_unpack w n a tmp cd))"
  by (simp_all add: DownloadArtifact_unpack_def unpackTarXz_def Let_def split: prod.split option.split)

lemma unpack_node:
  "snd (DownloadArtifact_unpack w True a tmp cd) = [EvUnpackTarXz a tmp]"
  by (simp add: DownloadArtifact_unpack_def unpackTarXz_def)

lemma unpack_7za:
  "EvUnpackTarXz a' d \<notin> set (snd (DownloadArtifact_unpack w False a tmp cd))"
  by (simp add: DownloadArtifact_unpack_def Let_def split: prod.split option.split)

subsection \<open>The staging after a cache miss\<close>

lemma stage_rename:
  "EvRename src dst \<in> set (snd (DownloadArtifact_stage w n url c cacheDir filePath lf)) \<longrightarrow>
    dst = filePath \<and>
    fst (DownloadArtifact_stage w n url c cacheDir filePath lf) = Return filePath None \<and>
    (\<forall>err. os_Rename w src dst = Some err \<longrightarrow>
       (\<exists>flds. EvLog Warn race_warning flds
           \<in> set (snd (DownloadArtifact_stage w n url c cacheDir filePath lf)) \<and>
          (''error'', LErr err) \<in> set flds)) \<and>
    (os_Rename w src dst = None \<longrightarrow>
       (\<forall>m flds. EvLog Warn m flds
           \<notin> set (snd (DownloadArtifact_stage w n url c cacheDir filePath lf))))"
  by (cases n)
     (auto simp add: DownloadArtifact_stage_def Let_def publish_result publish_rename publish_warning
      split: option.split sum.split)

lemma stage_remove:
  "EvRemove a \<in> set (snd (DownloadArtifact_stage w n url c cacheDir filePath lf)) \<longrightarrow>
    (case os_Remove w a of
       Some err \<Rightarrow>
         fst (DownloadArtifact_stage w n url c cacheDir filePath lf) = Return [] (Some (WithStack err))
     | None \<Rightarrow> fst (DownloadArtifact_stage w n url c cacheDir filePath lf) = Return filePath None) \<and>
    EvDownload url a c \<in> set (snd (DownloadArtifact_stage w n url c cacheDir filePath lf)) \<and>
    downloader_Download w url a c = None"
  by (cases n)
     (auto simp add: DownloadArtifact_stage_def Let_def publish_result
      split: option.split sum.split)

lemma stage_download:
  "EvDownload u a c' \<in> set (snd (DownloadArtifact_stage w n url c cacheDir filePath lf)) \<longrightarrow>
    u = url \<and> c' = c \<and>
    (\<exists>tmp. util_TempDir w cacheDir [] = Inr tmp \<and>
       a = tmp @ (if n then ''.tar.xz'' else ''.7z'') \<and>
       (n \<and> downloader_Download w u a c' = None \<longrightarrow>
          EvUnpackTarXz a tmp \<in> set (snd (DownloadArtifact_stage w n url c cacheDir filePath lf))))"
  by (cases n)
     (auto simp add: DownloadArtifact_stage_def Let_def unpack_node
      split: option.split sum.split)

lemma stage_no_stat [simp]:
  "EvStat p \<notin> set (snd (DownloadArtifact_stage w n url c cacheDir filePath lf))"
  by (cases n)
     (auto simp add: DownloadArtifact_stage_def Let_def split: option.split sum.split)

lemma stage_head:
  "\<exists>rest. snd (DownloadArtifact_stage w n url c cacheDir filePath lf) = EvMkdirAll cacheDir # rest"
  by (simp add: DownloadArtifact_stage_def)

lemma stage_node_no_exec:
  "EvExec prog args dir \<notin> set (snd (DownloadArtifact_stage w True url c cacheDir filePath lf))"
  by (simp add: DownloadArtifact_stage_def Let_def unpack_node split: option.split sum.split)

lemma stage_7za_no_pipeline:
  "EvUnpackTarXz a d \<notin> set (snd (DownloadArtifact_stage w False url c cacheDir filePath lf))"
  by (simp add: DownloadArtifact_stage_def Let_def unpack_7za split: option.split sum.split)

lemma happens_before_set: "happens_before x y xs \<Longrightarrow> x \<in> set xs \<and> y \<in> set xs"
  by (induction xs) auto

lemma unpack_node_fst:
  "fst (DownloadArtifact_unpack w True a tmp cd) = map_option WithStack (pipeline_TarXz w a tmp)"
  by (simp add: DownloadArtifact_unpack_def unpackTarXz_def)

lemma unpack_7za_run:
  "DownloadArtifact_unpack w False a tmp cd =
     (snd (exec_CombinedOutput w (util_GetEnvOrDefault w ''SZA_PATH'' ''7za'')
             [''x'', ''-bd'', a, ''-o'' @ tmp] cd),
      EvExec (util_GetEnvOrDefault w ''SZA_PATH'' ''7za'') [''x'', ''-bd'', a, ''-o'' @ tmp] cd #
      (case snd (exec_CombinedOutput w (util_GetEnvOrDefault w ''SZA_PATH'' ''7za'')
             [''x'', ''-bd'', a, ''-o'' @ tmp] cd) of
         Some err \<Rightarrow> []
       | None \<Rightarrow> [EvLog Debug (fst (exec_CombinedOutput w (util_GetEnvOrDefault w ''SZA_PATH'' ''7za'')
             [''x'', ''-bd'', a, ''-o'' @ tmp] cd)) []]))"
  by (simp add: DownloadArtifact_unpack_def Let_def emit_def split: prod.split option.split)

lemma stage_unpacked_then_removed:
  "EvUnpackTarXz a tmp \<in> set (snd (DownloadArtifact_stage w n url c cacheDir filePath lf)) \<and>
   pipeline_TarXz w a tmp = None \<longrightarrow>
     happens_before (EvUnpackTarXz a tmp) (EvRemove a)
       (snd (DownloadArtifact_stage w n url c cacheDir filePath lf))"
  by (cases n)
     (auto simp add: DownloadArtifact_stage_def Let_def unpack_node unpack_node_fst unpack_7za
      split: option.split sum.split)

lemma stage_extracted_then_removed:
  "EvExec prog args dir \<in> set (snd (DownloadArtifact_stage w n url c cacheDir filePath lf)) \<and>
   snd (exec_CombinedOutput w prog args dir) = None \<longrightarrow>
     (\<exists>a tmp. args = [''x'', ''-bd'', a, ''-o'' @ tmp] \<and>
        happens_before (EvExec prog args dir) (EvRemove a)
          (snd (DownloadArtifact_stage w n url c cacheDir filePath lf)))"
  by (cases n)
     (auto simp add: DownloadArtifact_stage_def Let_def unpack_node unpack_7za_run
      split: option.split sum.split)

lemma stage_removed_after:
  "EvRemove a \<in> set (snd (DownloadArtifact_stage w n url c cacheDir filePath lf)) \<longrightarrow>
     happens_before (EvDownload url a c) (EvRemove a)
       (snd (DownloadArtifact_stage w n url c cacheDir filePath lf)) \<and>
     ((\<exists>tmp. happens_before (EvUnpackTarXz a tmp) (EvRemove a)
          (snd (DownloadArtifact_stage w n url c cacheDir filePath lf)) \<and>
        pipeline_TarXz w a tmp = None) \<or>
      (\<exists>prog tmp dir.
        happens_before (EvExec prog [''x'', ''-bd'', a, ''-o'' @ tmp] dir) (EvRemove a)
          (snd (DownloadArtifact_stage w n url c cacheDir filePath lf)) \<and>
        snd (exec_CombinedOutput w prog [''x'', ''-bd'', a, ''-o'' @ tmp] dir) = None))"
  by (cases n)
     (auto simp add: DownloadArtifact_stage_def Let_def unpack_node unpack_node_fst unpack_7za_run
      split: option.split sum.split)

subsection \<open>The three outcomes of the cache lookup\<close>

lemma lookup_cases:
  obtains
    (hit) isDir where "os_Stat w filePath = Inr isDir"
      "isDir \<or> strings_HasSuffix filePath ''.tar''"
      "DownloadArtifact_lookup w n url c cacheDir filePath =
         (Return filePath None, [EvStat filePath, found_existing filePath])"
  | (unreadable) err where "os_Stat w filePath = Inl err" "\<not> os_IsNotExist err"
      "DownloadArtifact_lookup w n url c cacheDir filePath =
         (Return [] (Some (cache_check_error err filePath)), [EvStat filePath])"
  | (miss) "\<forall>isDir. os_Stat w filePath = Inr isDir \<longrightarrow> \<not> isDir \<and> \<not> strings_HasSuffix filePath ''.tar''"
      "\<forall>err. os_Stat w filePath = Inl err \<longrightarrow> os_IsNotExist err"
      "DownloadArtifact_lookup w n url c cacheDir filePath =
         emit [EvStat filePath]
           (DownloadArtifact_stage w n url c cacheDir filePath [(''path'', LStr filePath)])"
proof (cases "os_Stat w filePath")
  case (Inl err)
  show ?thesis
  proof (cases "os_IsNotExist err")
    case True
    with Inl show ?thesis
      by (intro miss) (simp_all add: DownloadArtifact_lookup_def)
  next
    case False
    with Inl show ?thesis
      by (intro unreadable[of err])
         (simp_all add: DownloadArtifact_lookup_def cache_check_error_def emit_def)
  qed
next
  case (Inr isDir)
  show ?thesis
  proof (cases "isDir \<or> strings_HasSuffix filePath ''.tar''")
    case True
    with Inr show ?thesis
      by (intro hit[of isDir])
         (simp_all add: DownloadArtifact_lookup_def found_existing_def emit_def)
  next
    case False
    with Inr show ?thesis
      by (intro miss) (simp_all add: DownloadArtifact_lookup_def)
  qed
qed

subsection \<open>The directory name and the cache path\<close>

lemma strings_Index_hyphen:
  "strings_Index s ''-'' =
     (if CHR ''-'' \<in> set s then int (length (takeWhile (\<lambda>c. c \<noteq> CHR ''-'') s)) else - 1)"
  by (induction s) (auto simp: strings_HasPrefix_def Let_def)

lemma take_takeWhile: "take (length (takeWhile P xs)) xs = takeWhile P xs"
  by (induction xs) auto

lemma takeWhile_Nil_hd: "takeWhile P xs = [] \<longleftrightarrow> xs = [] \<or> \<not> P (hd xs)"
  by (cases xs) auto

lemma resolve_node_panic:
  "CHR ''-'' \<notin> set url \<Longrightarrow>
   DownloadArtifact_resolve w ''node'' url c = (Panic ''slice bounds out of range'', [])"
  by (simp add: DownloadArtifact_resolve_def strings_Index_hyphen slice_to_def)

lemma resolve_no_cache:
  "dirName = ''node'' \<longrightarrow> CHR ''-'' \<in> set url \<Longrightarrow>
   GetCacheDirectory w ''electron-builder'' = Inl err \<Longrightarrow>
   DownloadArtifact_resolve w dirName url c = (Return [] (Some (WithStack err)), [])"
  by (simp add: DownloadArtifact_resolve_def strings_Index_hyphen slice_to_def Let_def
      length_takeWhile_le)

lemma resolve_node:
  assumes "CHR ''-'' \<in> set url" "GetCacheDirectory w ''electron-builder'' = Inr root"
  shows "DownloadArtifact_resolve w ''node'' url c =
     DownloadArtifact_lookup w True (node_url url) c (filepath_Join w [root, ''node''])
       (filepath_Join w [filepath_Join w [root, ''node''], ''node-'' @ url])"
  using assms
  by (simp add: DownloadArtifact_resolve_def strings_Index_hyphen slice_to_def Let_def
      node_url_def take_takeWhile length_takeWhile_le)

lemma resolve_plain:
  assumes "dirName \<noteq> ''node''" "GetCacheDirectory w ''electron-builder'' = Inr root"
  shows "DownloadArtifact_resolve w dirName url c =
     DownloadArtifact_lookup w False url c (family_path w root (derived_name dirName url))
       (filepath_Join w [family_path w root (derived_name dirName url), derived_name dirName url])"
  using assms
  by (simp add: DownloadArtifact_resolve_def strings_Index_hyphen Let_def family_path_def
      derived_name_def take_takeWhile takeWhile_Nil_hd)

lemma resolve_cases:
  obtains (aborted) r where "DownloadArtifact_resolve w dirName url c = (r, [])"
  | (lookup) n u cacheDir filePath where
      "DownloadArtifact_resolve w dirName url c = DownloadArtifact_lookup w n u c cacheDir filePath"
proof (cases "GetCacheDirectory w ''electron-builder''")
  case (Inl err)
  show ?thesis
  proof (cases "dirName = ''node'' \<and> CHR ''-'' \<notin> set url")
    case True
    then show ?thesis using resolve_node_panic[of url w c] aborted by simp
  next
    case False
    then show ?thesis using resolve_no_cache[of dirName url w err c] Inl aborted by blast
  qed
next
  case (Inr root)
  show ?thesis
  proof (cases "dirName = ''node''")
    case node: True
    show ?thesis
    proof (cases "CHR ''-'' \<in> set url")
      case True
      then show ?thesis using resolve_node[OF True Inr, of c] node lookup by simp
    next
      case False
      then show ?thesis using resolve_node_panic[of url w c] node aborted by simp
    qed
  next
    case False
    then show ?thesis using resolve_plain[OF False Inr, of url c] lookup by simp
  qed
qed

subsection \<open>The catalogue names\<close>

lemma DownloadArtifact_other:
  "dirName \<noteq> ''fpm'' \<Longrightarrow> dirName \<noteq> ''zstd'' \<Longrightarrow>
   DownloadArtifact w dirName url checksum = DownloadArtifact_resolve w dirName url checksum"
  by (simp add: DownloadArtifact.simps)

lemma DownloadArtifact_hyphenated:
  "DownloadArtifact w (a @ CHR ''-'' # b) url checksum =
   DownloadArtifact_resolve w (a @ CHR ''-'' # b) url checksum"
  by (rule DownloadArtifact_other) (simp_all add: hyphenated_neq)

lemma DownloadTool_refused:
  assumes "registered_checksum descriptor (os_qualifier osName) (normalized_arch (runtime_GOARCH w)) = []"
  shows "DownloadTool w descriptor osName =
     (Return [] (Some (Errorf (''Checksum not specified for '' @ osName @ '':''
         @ normalized_arch (runtime_GOARCH w)))), [])"
  using assms
  by (cases "osName = ''darwin''"; cases "osName = ''win32''")
     (simp_all add: DownloadTool.simps Let_def normalized_arch_def os_qualifier_def
        registered_checksum_def split del: if_split)

lemma DownloadTool_accepted:
  assumes "registered_checksum descriptor (os_qualifier osName) (normalized_arch (runtime_GOARCH w)) \<noteq> []"
  shows "\<exists>d u. DownloadTool w descriptor osName = DownloadArtifact_resolve w d u
     (registered_checksum descriptor (os_qualifier osName) (normalized_arch (runtime_GOARCH w)))"
  using assms
  apply (cases "osName = ''darwin''"; cases "osName = ''win32''")
  apply (simp_all add: DownloadTool.simps Let_def normalized_arch_def os_qualifier_def
        registered_checksum_def DownloadArtifact_hyphenated split del: if_split)
     apply (intro exI, rule refl)+
  done

lemma DownloadFpm_resolve:
  "\<exists>d u c. DownloadFpm w = DownloadArtifact_resolve w d u c"
  using DownloadArtifact_hyphenated[of w "''fpm''"]
  by (simp add: DownloadFpm.simps Let_def split: prod.split) blast

lemma DownloadArtifact_cases:
  obtains (aborted) r where "DownloadArtifact w dirName url c = (r, [])"
  | (lookup) n u c' cacheDir filePath where
      "DownloadArtifact w dirName url c = DownloadArtifact_lookup w n u c' cacheDir filePath"
proof -
  have "\<exists>d u c'. DownloadArtifact w dirName url c = DownloadArtifact_resolve w d u c' \<or>
      (\<exists>r. DownloadArtifact w dirName url c = (r, []))"
  proof (cases "dirName = ''fpm''")
    case True
    then show ?thesis
      using DownloadFpm_resolve[of w] by (auto simp add: DownloadArtifact.simps)
  next
    case nf: False
    show ?thesis
    proof (cases "dirName = ''zstd''")
      case True
      then have eq: "DownloadArtifact w dirName url c = DownloadTool w zstd_descriptor (runtime_GOOS w)"
        by (simp add: DownloadArtifact.simps DownloadZstd.simps)
      show ?thesis
        using DownloadTool_refused[of zstd_descriptor "runtime_GOOS w" w]
          DownloadTool_accepted[of zstd_descriptor "runtime_GOOS w" w]
        unfolding eq by blast
    next
      case False
      with nf show ?thesis
        using DownloadArtifact_other[of dirName w url c] by blast
    qed
  qed
  then show ?thesis
    using resolve_cases aborted lookup by metis
qed

subsection \<open>The four ways a call can go\<close>

lemma DownloadArtifact_runs:
  obtains
    (aborted) r where "DownloadArtifact w dirName url c = (r, [])"
  | (hit) filePath isDir where "os_Stat w filePath = Inr isDir"
      "isDir \<or> strings_HasSuffix filePath ''.tar''"
      "DownloadArtifact w dirName url c =
         (Return filePath None, [EvStat filePath, found_existing filePath])"
  | (unreadable) filePath err where "os_Stat w filePath = Inl err" "\<not> os_IsNotExist err"
      "DownloadArtifact w dirName url c =
         (Return [] (Some (cache_check_error err filePath)), [EvStat filePath])"
  | (miss) filePath n u c' cacheDir where
      "\<forall>isDir. os_Stat w filePath = Inr isDir \<longrightarrow> \<not> isDir \<and> \<not> strings_HasSuffix filePath ''.tar''"
      "\<forall>err. os_Stat w filePath = Inl err \<longrightarrow> os_IsNotExist err"
      "DownloadArtifact w dirName url c =
         emit [EvStat filePath]
           (DownloadArtifact_stage w n u c' cacheDir filePath [(''path'', LStr filePath)])"
proof (cases rule: DownloadArtifact_cases[of w dirName url c])
  case (aborted r)
  then show ?thesis by (rule that(1))
next
  case (lookup n u c' cacheDir filePath)
  show ?thesis
  proof (cases rule: lookup_cases[of w filePath n u c' cacheDir])
    case (hit isDir)
    show ?thesis
      by (rule that(2)[OF hit(1) hit(2)]) (simp only: lookup hit(3))
  next
    case (unreadable err)
    show ?thesis
      by (rule that(3)[OF unreadable(1) unreadable(2)]) (simp only: lookup unreadable(3))
  next
    case miss
    show ?thesis
      by (rule that(4)[OF miss(1) miss(2)]) (simp only: lookup miss(3))
  qed
qed

subsection \<open>Publishing\<close>

text \<open>
  Claim C1. When the final rename into the cache path fails, \<open>DownloadArtifact\<close> logs a
  warning and still returns the final path with a nil error. For every machine and every
  request: if the run reaches the rename of some \<open>src\<close> to \<open>dst\<close> and the rename fails
  with \<open>err\<close>, the result is \<open>(dst, nil)\<close>, \<open>dst\<close> is the path that the cache lookup had
  checked, and the warning that carries \<open>err\<close> is logged.
\<close>

theorem failed_publish_still_succeeds:
  assumes "EvRename src dst \<in> set (snd (DownloadArtifact w dirName url checksum))"
    and "os_Rename w src dst = Some err"
  shows "fst (DownloadArtifact w dirName url checksum) = Return dst None \<and>
     EvStat dst \<in> set (snd (DownloadArtifact w dirName url checksum)) \<and>
     (\<exists>flds. EvLog Warn race_warning flds \<in> set (snd (DownloadArtifact w dirName url checksum)) \<and>
        (''error'', LErr err) \<in> set flds)"
proof (cases rule: DownloadArtifact_runs[of w dirName url checksum])
  case (aborted r)
  with assms show ?thesis by simp
next
  case (hit filePath isDir)
  with assms show ?thesis by (simp add: found_existing_def)
next
  case (unreadable filePath e)
  with assms show ?thesis by simp
next
  case (miss filePath n u c' cacheDir)
  with assms stage_rename[of src dst w n u c' cacheDir filePath "[(''path'', LStr filePath)]"]
  show ?thesis by auto
qed

lemma raced_run:
  "DownloadArtifact raced_machine ''foo-1'' ''http://x/foo-1.7z'' [] =
   (Return ''/cache/foo/foo-1'' None,
    [EvStat ''/cache/foo/foo-1'', EvMkdirAll ''/cache/foo'',
     EvLog Info ''downloading''
       [(''path'', LStr ''/cache/foo/foo-1''), (''url'', LStr ''http://x/foo-1.7z'')],
     EvTempDir ''/cache/foo'' [],
     EvDownload ''http://x/foo-1.7z'' ''/cache/foo/t1.7z'' [],
     EvExec ''7za'' [''x'', ''-bd'', ''/cache/foo/t1.7z'', ''-o/cache/foo/t1''] ''/cache/foo'',
     EvLog Debug [] [], EvRemove ''/cache/foo/t1.7z'',
     EvRename ''/cache/foo/t1'' ''/cache/foo/foo-1'',
     EvLog Warn race_warning
       [(''path'', LStr ''/cache/foo/foo-1''), (''tempUnpackDir'', LStr ''/cache/foo/t1''),
        (''error'', LErr (OsError ''file exists''))],
     EvLog Debug ''downloaded'' [(''path'', LStr ''/cache/foo/foo-1'')]])"
  by code_simp

lemma raced_rename:
  "os_Rename raced_machine src dst = Some (OsError ''file exists'')"
  by (simp add: raced_machine_def)

theorem failed_publish_still_succeeds_witness:
  "EvRename ''/cache/foo/t1'' ''/cache/foo/foo-1''
     \<in> set (snd (DownloadArtifact raced_machine ''foo-1'' ''http://x/foo-1.7z'' [])) \<and>
   os_Rename raced_machine ''/cache/foo/t1'' ''/cache/foo/foo-1'' = Some (OsError ''file exists'') \<and>
   fst (DownloadArtifact raced_machine ''foo-1'' ''http://x/foo-1.7z'' []) =
     Return ''/cache/foo/foo-1'' None"
proof -
  have ev: "EvRename ''/cache/foo/t1'' ''/cache/foo/foo-1''
     \<in> set (snd (DownloadArtifact raced_machine ''foo-1'' ''http://x/foo-1.7z'' []))"
    by (simp add: raced_run)
  from failed_publish_still_succeeds[OF ev raced_rename] ev raced_rename
  show ?thesis by simp
qed

lemma fetch_rename:
  "EvRename src dst \<in> set (snd (DownloadCompressedArtifact_fetch w url c cacheDir filePath lf)) \<longrightarrow>
   dst = filePath \<and>
   (case os_Rename w src dst of
      Some err \<Rightarrow>
        fst (DownloadCompressedArtifact_fetch w url c cacheDir filePath lf) =
          Return [] (Some (WithStack err))
    | None \<Rightarrow> fst (DownloadCompressedArtifact_fetch w url c cacheDir filePath lf) = Return dst None)"
  by (auto simp add: DownloadCompressedArtifact_fetch_def split: option.split sum.split)

lemma fetch_no_stat [simp]:
  "EvStat p \<notin> set (snd (DownloadCompressedArtifact_fetch w url c cacheDir filePath lf))"
  by (simp add: DownloadCompressedArtifact_fetch_def split: option.split sum.split)

lemma fetch_head:
  "\<exists>rest. snd (DownloadCompressedArtifact_fetch w url c cacheDir filePath lf) =
     EvMkdirAll cacheDir # rest"
  by (simp add: DownloadCompressedArtifact_fetch_def)

lemma compressed_cases:
  obtains (aborted) r where "DownloadCompressedArtifact w subDir url c = (r, [])"
  | (hit) filePath isDir where "os_Stat w filePath = Inr isDir"
      "DownloadCompressedArtifact w subDir url c =
         (Return filePath None,
          [EvStat filePath, EvLog Debug ''found existing'' [(''file'', LStr filePath)]])"
  | (unreadable) filePath err where "os_Stat w filePath = Inl err" "\<not> os_IsNotExist err"
      "DownloadCompressedArtifact w subDir url c =
         (Return [] (Some (cache_check_error err filePath)), [EvStat filePath])"
  | (miss) filePath err cacheDir where "os_Stat w filePath = Inl err" "os_IsNotExist err"
      "DownloadCompressedArtifact w subDir url c =
         emit [EvStat filePath]
           (DownloadCompressedArtifact_fetch w url c cacheDir filePath [(''file'', LStr filePath)])"
proof (cases "GetCacheDirectory w ''electron-builder''")
  case (Inl err)
  show ?thesis
    by (rule aborted) (simp add: DownloadCompressedArtifact_def Inl)
next
  case (Inr cacheDir0)
  define cacheDir where
    "cacheDir = (if length subDir \<noteq> 0 then filepath_Join w [cacheDir0, subDir] else cacheDir0)"
  define filePath where "filePath = filepath_Join w [cacheDir, path_Base url]"
  have unf: "DownloadCompressedArtifact w subDir url c =
     emit [EvStat filePath]
       (case os_Stat w filePath of
          Inr isDir \<Rightarrow>
            (Return filePath None, [EvLog Debug ''found existing'' [(''file'', LStr filePath)]])
        | Inl statErr \<Rightarrow>
            if \<not> os_IsNotExist statErr then
              (Return [] (Some (cache_check_error statErr filePath)), [])
            else DownloadCompressedArtifact_fetch w url c cacheDir filePath
                   [(''file'', LStr filePath)])"
    unfolding DownloadCompressedArtifact_def Inr Let_def cacheDir_def filePath_def
      cache_check_error_def sum.case
    by (rule refl)
  show ?thesis
  proof (cases "os_Stat w filePath")
    case st: (Inl err)
    show ?thesis
    proof (cases "os_IsNotExist err")
      case True
      show ?thesis
        by (rule miss[OF st True]) (simp add: unf st True)
    next
      case False
      show ?thesis
        by (rule unreadable[OF st False]) (simp add: unf st False emit_def)
    qed
  next
    case st: (Inr isDir)
    show ?thesis
      by (rule hit[OF st]) (simp add: unf st emit_def)
  qed
qed

lemma compressed_rename:
  "EvRename src dst \<in> set (snd (DownloadCompressedArtifact w subDir url c)) \<longrightarrow>
   (case os_Rename w src dst of
      Some err \<Rightarrow> fst (DownloadCompressedArtifact w subDir url c) = Return [] (Some (WithStack err))
    | None \<Rightarrow> fst (DownloadCompressedArtifact w subDir url c) = Return dst None)"
proof (cases rule: compressed_cases[of w subDir url c])
  case (aborted r)
  then show ?thesis by simp
next
  case (hit filePath isDir)
  then show ?thesis by simp
next
  case (unreadable filePath err)
  then show ?thesis by simp
next
  case (miss filePath err cacheDir)
  with fetch_rename[of src dst w url c cacheDir filePath "[(''file'', LStr filePath)]"]
  show ?thesis by (auto split: option.splits)
qed

lemma compressed_stat:
  "EvStat p \<in> set (snd (DownloadCompressedArtifact w subDir url c)) \<and> os_Stat w p = Inl err \<longrightarrow>
   (if os_IsNotExist err
    then \<exists>dir rest. snd (DownloadCompressedArtifact w subDir url c) = EvStat p # EvMkdirAll dir # rest
    else DownloadCompressedArtifact w subDir url c =
           (Return [] (Some (cache_check_error err p)), [EvStat p]))"
proof (cases rule: compressed_cases[of w subDir url c])
  case (aborted r)
  then show ?thesis by simp
next
  case (hit filePath isDir)
  then show ?thesis by auto
next
  case (unreadable filePath e)
  then show ?thesis by auto
next
  case (miss filePath e cacheDir)
  from fetch_head[of w url c cacheDir filePath "[(''file'', LStr filePath)]"]
  obtain rest where
    "snd (DownloadCompressedArtifact_fetch w url c cacheDir filePath [(''file'', LStr filePath)]) =
       EvMkdirAll cacheDir # rest" ..
  with miss have "snd (DownloadCompressedArtifact w subDir url c) =
      EvStat filePath # EvMkdirAll cacheDir # rest"
    by simp
  moreover have "EvStat p \<in> set (snd (DownloadCompressedArtifact w subDir url c)) \<longrightarrow> p = filePath"
    using miss(3) by simp
  ultimately show ?thesis using miss(1,2) by auto
qed

lemma compressed_run:
  "DownloadCompressedArtifact raced_machine ''snap'' ''http://x/core.snap'' [] =
   (Return [] (Some (WithStack (OsError ''file exists''))),
    [EvStat ''/cache/snap/core.snap'', EvMkdirAll ''/cache/snap'',
     EvTempFile ''/cache/snap'' ''.snap'',
     EvLog Info ''downloading''
       [(''file'', LStr ''/cache/snap/core.snap''), (''url'', LStr ''http://x/core.snap'')],
     EvDownload ''http://x/core.snap'' ''/cache/snap/t1.snap'' [],
     EvLog Debug ''downloaded'' [(''file'', LStr ''/cache/snap/core.snap'')],
     EvRename ''/cache/snap/t1.snap'' ''/cache/snap/core.snap''])"
  by code_simp

text \<open>
  Claim C10. In \<open>DownloadCompressedArtifact\<close> a failure of the final rename is fatal: the
  call returns the error and no path. In \<open>DownloadArtifact\<close> the same failure leaves the
  result \<open>(dst, nil)\<close>.
\<close>

theorem failed_rename_fatal_for_compressed_only:
  "(EvRename src dst \<in> set (snd (DownloadCompressedArtifact w subDir url checksum)) \<and>
    os_Rename w src dst = Some err \<longrightarrow>
      fst (DownloadCompressedArtifact w subDir url checksum) = Return [] (Some (WithStack err))) \<and>
   (EvRename src' dst' \<in> set (snd (DownloadArtifact w dirName url' checksum')) \<and>
    os_Rename w src' dst' = Some err' \<longrightarrow>
      fst (DownloadArtifact w dirName url' checksum') = Return dst' None)"
proof (intro conjI impI)
  assume "EvRename src dst \<in> set (snd (DownloadCompressedArtifact w subDir url checksum)) \<and>
    os_Rename w src dst = Some err"
  with compressed_rename[of src dst w subDir url checksum]
  show "fst (DownloadCompressedArtifact w subDir url checksum) = Return [] (Some (WithStack err))"
    by simp
next
  assume a: "EvRename src' dst' \<in> set (snd (DownloadArtifact w dirName url' checksum')) \<and>
    os_Rename w src' dst' = Some err'"
  show "fst (DownloadArtifact w dirName url' checksum') = Return dst' None"
  proof (cases rule: DownloadArtifact_runs[of w dirName url' checksum'])
    case (aborted r)
    with a show ?thesis by simp
  next
    case (hit filePath isDir)
    with a show ?thesis by (simp add: found_existing_def)
  next
    case (unreadable filePath e)
    with a show ?thesis by simp
  next
    case (miss filePath n u c' cacheDir)
    with a stage_rename[of src' dst' w n u c' cacheDir filePath "[(''path'', LStr filePath)]"]
    show ?thesis by auto
  qed
qed

theorem failed_rename_fatal_for_compressed_only_witness:
  "EvRename ''/cache/snap/t1.snap'' ''/cache/snap/core.snap''
     \<in> set (snd (DownloadCompressedArtifact raced_machine ''snap'' ''http://x/core.snap'' [])) \<and>
   os_Rename raced_machine ''/cache/snap/t1.snap'' ''/cache/snap/core.snap'' =
     Some (OsError ''file exists'') \<and>
   fst (DownloadCompressedArtifact raced_machine ''snap'' ''http://x/core.snap'' []) =
     Return [] (Some (WithStack (OsError ''file exists''))) \<and>
   EvRename ''/cache/foo/t1'' ''/cache/foo/foo-1''
     \<in> set (snd (DownloadArtifact raced_machine ''foo-1'' ''http://x/foo-1.7z'' [])) \<and>
   os_Rename raced_machine ''/cache/foo/t1'' ''/cache/foo/foo-1'' = Some (OsError ''file exists'') \<and>
   fst (DownloadArtifact raced_machine ''foo-1'' ''http://x/foo-1.7z'' []) =
     Return ''/cache/foo/foo-1'' None"
proof -
  have ev: "EvRename ''/cache/snap/t1.snap'' ''/cache/snap/core.snap''
     \<in> set (snd (DownloadCompressedArtifact raced_machine ''snap'' ''http://x/core.snap'' []))"
    by (simp add: compressed_run)
  have ev': "EvRename ''/cache/foo/t1'' ''/cache/foo/foo-1''
     \<in> set (snd (DownloadArtifact raced_machine ''foo-1'' ''http://x/foo-1.7z'' []))"
    by (simp add: raced_run)
  from failed_rename_fatal_for_compressed_only[of "''/cache/snap/t1.snap''"
      "''/cache/snap/core.snap''" raced_machine "''snap''" "''http://x/core.snap''" "[]"
      "OsError ''file exists''" "''/cache/foo/t1''" "''/cache/foo/foo-1''" "''foo-1''"
      "''http://x/foo-1.7z''" "[]" "OsError ''file exists''"]
    ev ev' raced_rename
  show ?thesis by simp
qed

subsection \<open>Removing the archive\<close>

lemma vanished_run:
  "DownloadArtifact vanished_machine ''foo-1'' ''http://x/foo-1.7z'' [] =
   (Return [] (Some (WithStack (NotExist ''remove'' ''/cache/foo/t1.7z''))),
    [EvStat ''/cache/foo/foo-1'', EvMkdirAll ''/cache/foo'',
     EvLog Info ''downloading''
       [(''path'', LStr ''/cache/foo/foo-1''), (''url'', LStr ''http://x/foo-1.7z'')],
     EvTempDir ''/cache/foo'' [],
     EvDownload ''http://x/foo-1.7z'' ''/cache/foo/t1.7z'' [],
     EvExec ''7za'' [''x'', ''-bd'', ''/cache/foo/t1.7z'', ''-o/cache/foo/t1''] ''/cache/foo'',
     EvLog Debug [] [], EvRemove ''/cache/foo/t1.7z''])"
  by code_simp

lemma cold_run:
  "DownloadArtifact cold_machine ''foo-1'' ''http://x/foo-1.7z'' [] =
   (Return ''/cache/foo/foo-1'' None,
    [EvStat ''/cache/foo/foo-1'', EvMkdirAll ''/cache/foo'',
     EvLog Info ''downloading''
       [(''path'', LStr ''/cache/foo/foo-1''), (''url'', LStr ''http://x/foo-1.7z'')],
     EvTempDir ''/cache/foo'' [],
     EvDownload ''http://x/foo-1.7z'' ''/cache/foo/t1.7z'' [],
     EvExec ''7za'' [''x'', ''-bd'', ''/cache/foo/t1.7z'', ''-o/cache/foo/t1''] ''/cache/foo'',
     EvLog Debug [] [], EvRemove ''/cache/foo/t1.7z'',
     EvRename ''/cache/foo/t1'' ''/cache/foo/foo-1'',
     EvLog Debug ''downloaded'' [(''path'', LStr ''/cache/foo/foo-1'')]])"
  by code_simp

text \<open>
  Claim C2, as the specification states it: after the unpacking the archive is removed, and
  the call still succeeds when the archive is already gone at that point. It does not: on
  the machine where \<open>os.Remove\<close> finds no archive and answers its "does not exist" error,
  the call reaches the removal and returns that error.
\<close>

theorem vanished_archive_is_fatal:
  "EvRemove ''/cache/foo/t1.7z''
     \<in> set (snd (DownloadArtifact vanished_machine ''foo-1'' ''http://x/foo-1.7z'' [])) \<and>
   os_Remove vanished_machine ''/cache/foo/t1.7z'' = Some (NotExist ''remove'' ''/cache/foo/t1.7z'') \<and>
   os_IsNotExist (NotExist ''remove'' ''/cache/foo/t1.7z'') \<and>
   fst (DownloadArtifact vanished_machine ''foo-1'' ''http://x/foo-1.7z'' []) =
     Return [] (Some (WithStack (NotExist ''remove'' ''/cache/foo/t1.7z'')))"
proof -
  have "os_Remove vanished_machine ''/cache/foo/t1.7z'' =
      Some (NotExist ''remove'' ''/cache/foo/t1.7z'')"
    by (simp add: vanished_machine_def)
  then show ?thesis by (simp add: vanished_run)
qed

lemma node_cold_run:
  "DownloadArtifact cold_machine ''node'' ''10.4.0-linux-x64'' ''abc'' =
   (Return ''/cache/node/node-10.4.0-linux-x64'' None,
    [EvStat ''/cache/node/node-10.4.0-linux-x64'', EvMkdirAll ''/cache/node'',
     EvLog Info ''downloading''
       [(''path'', LStr ''/cache/node/node-10.4.0-linux-x64''),
        (''url'', LStr ''https://nodejs.org/dist/v10.4.0/node-v10.4.0-linux-x64.tar.xz'')],
     EvTempDir ''/cache/node'' [],
     EvDownload ''https://nodejs.org/dist/v10.4.0/node-v10.4.0-linux-x64.tar.xz''
       ''/cache/node/t1.tar.xz'' ''abc'',
     EvUnpackTarXz ''/cache/node/t1.tar.xz'' ''/cache/node/t1'',
     EvRemove ''/cache/node/t1.tar.xz'',
     EvRename ''/cache/node/t1'' ''/cache/node/node-10.4.0-linux-x64'',
     EvLog Debug ''downloaded'' [(''path'', LStr ''/cache/node/node-10.4.0-linux-x64'')]])"
  by code_simp

text \<open>
  Claim C2, amended. After the unpacking has succeeded \<open>DownloadArtifact\<close> removes the
  archive it had downloaded, and every error of \<open>os.Remove\<close> is fatal, the error of an
  archive that is already gone included: the call returns that error, wrapped, and no path.
  The call goes on to a result with a nil error only when \<open>os.Remove\<close> answers nil.
  In the events of every run: a removal comes after the successful download of the archive
  it removes and after the successful unpacking of that archive, by \<open>unpackTarXz\<close> or by
  7za; and every unpacking that succeeds, of either kind, is followed by the removal of the
  archive that was unpacked.
\<close>

theorem every_remove_error_is_fatal:
  "(EvRemove a \<in> set (snd (DownloadArtifact w dirName url checksum)) \<longrightarrow>
      (case os_Remove w a of
         Some err \<Rightarrow>
           fst (DownloadArtifact w dirName url checksum) = Return [] (Some (WithStack err))
       | None \<Rightarrow> (\<exists>p. fst (DownloadArtifact w dirName url checksum) = Return p None)) \<and>
      (\<exists>u c. EvDownload u a c \<in> set (snd (DownloadArtifact w dirName url checksum)) \<and>
         downloader_Download w u a c = None \<and>
         happens_before (EvDownload u a c) (EvRemove a)
           (snd (DownloadArtifact w dirName url checksum))) \<and>
      ((\<exists>tmp. happens_before (EvUnpackTarXz a tmp) (EvRemove a)
                 (snd (DownloadArtifact w dirName url checksum)) \<and>
               pipeline_TarXz w a tmp = None) \<or>
       (\<exists>prog tmp dir.
          happens_before (EvExec prog [''x'', ''-bd'', a, ''-o'' @ tmp] dir) (EvRemove a)
            (snd (DownloadArtifact w dirName url checksum)) \<and>
          snd (exec_CombinedOutput w prog [''x'', ''-bd'', a, ''-o'' @ tmp] dir) = None))) \<and>
   (\<forall>archive tmp.
      EvUnpackTarXz archive tmp \<in> set (snd (DownloadArtifact w dirName url checksum)) \<and>
      pipeline_TarXz w archive tmp = None \<longrightarrow>
        happens_before (EvUnpackTarXz archive tmp) (EvRemove archive)
          (snd (DownloadArtifact w dirName url checksum))) \<and>
   (\<forall>prog args dir.
      EvExec prog args dir \<in> set (snd (DownloadArtifact w dirName url checksum)) \<and>
      snd (exec_CombinedOutput w prog args dir) = None \<longrightarrow>
        (\<exists>archive tmp. args = [''x'', ''-bd'', archive, ''-o'' @ tmp] \<and>
           happens_before (EvExec prog args dir) (EvRemove archive)
             (snd (DownloadArtifact w dirName url checksum))))"
proof (cases rule: DownloadArtifact_runs[of w dirName url checksum])
  case (aborted r)
  then show ?thesis by simp
next
  case (hit filePath isDir)
  then show ?thesis by (simp add: found_existing_def)
next
  case (unreadable filePath e)
  then show ?thesis by simp
next
  case (miss filePath n u c' cacheDir)
  let ?lf = "[(''path'', LStr filePath)]"
  let ?stage = "DownloadArtifact_stage w n u c' cacheDir filePath ?lf"
  have run: "snd (DownloadArtifact w dirName url checksum) = EvStat filePath # snd ?stage"
    and res: "fst (DownloadArtifact w dirName url checksum) = fst ?stage"
    using miss(3) by simp_all
  have 1: "EvRemove a \<in> set (snd (DownloadArtifact w dirName url checksum)) \<longrightarrow>
      (case os_Remove w a of
         Some err \<Rightarrow>
           fst (DownloadArtifact w dirName url checksum) = Return [] (Some (WithStack err))
       | None \<Rightarrow> (\<exists>p. fst (DownloadArtifact w dirName url checksum) = Return p None)) \<and>
      (\<exists>u c. EvDownload u a c \<in> set (snd (DownloadArtifact w dirName url checksum)) \<and>
         downloader_Download w u a c = None \<and>
         happens_before (EvDownload u a c) (EvRemove a)
           (snd (DownloadArtifact w dirName url checksum))) \<and>
      ((\<exists>tmp. happens_before (EvUnpackTarXz a tmp) (EvRemove a)
                 (snd (DownloadArtifact w dirName url checksum)) \<and>
               pipeline_TarXz w a tmp = None) \<or>
       (\<exists>prog tmp dir.
          happens_before (EvExec prog [''x'', ''-bd'', a, ''-o'' @ tmp] dir) (EvRemove a)
            (snd (DownloadArtifact w dirName url checksum)) \<and>
          snd (exec_CombinedOutput w prog [''x'', ''-bd'', a, ''-o'' @ tmp] dir) = None))"
  proof
    assume "EvRemove a \<in> set (snd (DownloadArtifact w dirName url checksum))"
    then have rm: "EvRemove a \<in> set (snd ?stage)"
      by (simp add: run)
    from rm stage_remove[of a w n u c' cacheDir filePath ?lf]
    have r: "(case os_Remove w a of
         Some err \<Rightarrow> fst ?stage = Return [] (Some (WithStack err))
       | None \<Rightarrow> fst ?stage = Return filePath None)"
      and d: "EvDownload u a c' \<in> set (snd ?stage)" "downloader_Download w u a c' = None"
      by simp_all
    from rm stage_removed_after[of a w n u c' cacheDir filePath ?lf]
    have o: "happens_before (EvDownload u a c') (EvRemove a) (snd ?stage)"
      and p: "(\<exists>tmp. happens_before (EvUnpackTarXz a tmp) (EvRemove a) (snd ?stage) \<and>
                 pipeline_TarXz w a tmp = None) \<or>
       (\<exists>prog tmp dir.
          happens_before (EvExec prog [''x'', ''-bd'', a, ''-o'' @ tmp] dir) (EvRemove a)
            (snd ?stage) \<and>
          snd (exec_CombinedOutput w prog [''x'', ''-bd'', a, ''-o'' @ tmp] dir) = None)"
      by simp_all
    from r have "(case os_Remove w a of
         Some err \<Rightarrow>
           fst (DownloadArtifact w dirName url checksum) = Return [] (Some (WithStack err))
       | None \<Rightarrow> (\<exists>p. fst (DownloadArtifact w dirName url checksum) = Return p None))"
      by (simp add: res split: option.splits)
    moreover from d o
    have "\<exists>u c. EvDownload u a c \<in> set (snd (DownloadArtifact w dirName url checksum)) \<and>
         downloader_Download w u a c = None \<and>
         happens_before (EvDownload u a c) (EvRemove a)
           (snd (DownloadArtifact w dirName url checksum))"
      unfolding run by (intro exI[of _ u] exI[of _ c']) simp
    moreover from p
    have "(\<exists>tmp. happens_before (EvUnpackTarXz a tmp) (EvRemove a)
                 (snd (DownloadArtifact w dirName url checksum)) \<and>
               pipeline_TarXz w a tmp = None) \<or>
       (\<exists>prog tmp dir.
          happens_before (EvExec prog [''x'', ''-bd'', a, ''-o'' @ tmp] dir) (EvRemove a)
            (snd (DownloadArtifact w dirName url checksum)) \<and>
          snd (exec_CombinedOutput w prog [''x'', ''-bd'', a, ''-o'' @ tmp] dir) = None)"
      unfolding run by simp
    ultimately show "(case os_Remove w a of
         Some err \<Rightarrow>
           fst (DownloadArtifact w dirName url checksum) = Return [] (Some (WithStack err))
       | None \<Rightarrow> (\<exists>p. fst (DownloadArtifact w dirName url checksum) = Return p None)) \<and>
      (\<exists>u c. EvDownload u a c \<in> set (snd (DownloadArtifact w dirName url checksum)) \<and>
         downloader_Download w u a c = None \<and>
         happens_before (EvDownload u a c) (EvRemove a)
           (snd (DownloadArtifact w dirName url checksum))) \<and>
      ((\<exists>tmp. happens_before (EvUnpackTarXz a tmp) (EvRemove a)
                 (snd (DownloadArtifact w dirName url checksum)) \<and>
               pipeline_TarXz w a tmp = None) \<or>
       (\<exists>prog tmp dir.
          happens_before (EvExec prog [''x'', ''-bd'', a, ''-o'' @ tmp] dir) (EvRemove a)
            (snd (DownloadArtifact w dirName url checksum)) \<and>
          snd (exec_CombinedOutput w prog [''x'', ''-bd'', a, ''-o'' @ tmp] dir) = None))"
      by (intro conjI)
  qed
  have 2: "\<forall>archive tmp.
      EvUnpackTarXz archive tmp \<in> set (snd (DownloadArtifact w dirName url checksum)) \<and>
      pipeline_TarXz w archive tmp = None \<longrightarrow>
        happens_before (EvUnpackTarXz archive tmp) (EvRemove archive)
          (snd (DownloadArtifact w dirName url checksum))"
    using stage_unpacked_then_removed[of _ _ w n u c' cacheDir filePath ?lf]
    unfolding run by simp
  have 3: "\<forall>prog args dir.
      EvExec prog args dir \<in> set (snd (DownloadArtifact w dirName url checksum)) \<and>
      snd (exec_CombinedOutput w prog args dir) = None \<longrightarrow>
        (\<exists>archive tmp. args = [''x'', ''-bd'', archive, ''-o'' @ tmp] \<and>
           happens_before (EvExec prog args dir) (EvRemove archive)
             (snd (DownloadArtifact w dirName url checksum)))"
    using stage_extracted_then_removed[of _ _ _ w n u c' cacheDir filePath ?lf]
    unfolding run by simp
  from 1 2 3 show ?thesis by (intro conjI)
qed

theorem every_remove_error_is_fatal_witness:
  "EvRemove ''/cache/foo/t1.7z''
     \<in> set (snd (DownloadArtifact vanished_machine ''foo-1'' ''http://x/foo-1.7z'' [])) \<and>
   os_Remove vanished_machine ''/cache/foo/t1.7z'' = Some (NotExist ''remove'' ''/cache/foo/t1.7z'') \<and>
   fst (DownloadArtifact vanished_machine ''foo-1'' ''http://x/foo-1.7z'' []) =
     Return [] (Some (WithStack (NotExist ''remove'' ''/cache/foo/t1.7z''))) \<and>
   EvRemove ''/cache/foo/t1.7z''
     \<in> set (snd (DownloadArtifact cold_machine ''foo-1'' ''http://x/foo-1.7z'' [])) \<and>
   os_Remove cold_machine ''/cache/foo/t1.7z'' = None \<and>
   (\<exists>p. fst (DownloadArtifact cold_machine ''foo-1'' ''http://x/foo-1.7z'' []) = Return p None) \<and>
   EvExec ''7za'' [''x'', ''-bd'', ''/cache/foo/t1.7z'', ''-o/cache/foo/t1''] ''/cache/foo''
     \<in> set (snd (DownloadArtifact cold_machine ''foo-1'' ''http://x/foo-1.7z'' [])) \<and>
   snd (exec_CombinedOutput cold_machine ''7za''
          [''x'', ''-bd'', ''/cache/foo/t1.7z'', ''-o/cache/foo/t1''] ''/cache/foo'') = None \<and>
   (\<exists>archive tmp.
      [''x'', ''-bd'', ''/cache/foo/t1.7z'', ''-o/cache/foo/t1''] = [''x'', ''-bd'', archive, ''-o'' @ tmp] \<and>
      happens_before
        (EvExec ''7za'' [''x'', ''-bd'', ''/cache/foo/t1.7z'', ''-o/cache/foo/t1''] ''/cache/foo'')
        (EvRemove archive)
        (snd (DownloadArtifact cold_machine ''foo-1'' ''http://x/foo-1.7z'' []))) \<and>
   EvUnpackTarXz ''/cache/node/t1.tar.xz'' ''/cache/node/t1''
     \<in> set (snd (DownloadArtifact cold_machine ''node'' ''10.4.0-linux-x64'' ''abc'')) \<and>
   pipeline_TarXz cold_machine ''/cache/node/t1.tar.xz'' ''/cache/node/t1'' = None \<and>
   happens_before (EvUnpackTarXz ''/cache/node/t1.tar.xz'' ''/cache/node/t1'')
     (EvRemove ''/cache/node/t1.tar.xz'')
     (snd (DownloadArtifact cold_machine ''node'' ''10.4.0-linux-x64'' ''abc''))"
proof -
  have ev: "EvRemove ''/cache/foo/t1.7z''
     \<in> set (snd (DownloadArtifact vanished_machine ''foo-1'' ''http://x/foo-1.7z'' []))"
    by (simp add: vanished_run)
  have ev': "EvRemove ''/cache/foo/t1.7z''
     \<in> set (snd (DownloadArtifact cold_machine ''foo-1'' ''http://x/foo-1.7z'' []))"
    by (simp add: cold_run)
  have rm: "os_Remove vanished_machine ''/cache/foo/t1.7z'' =
      Some (NotExist ''remove'' ''/cache/foo/t1.7z'')"
    by (simp add: vanished_machine_def)
  have rm': "os_Remove cold_machine ''/cache/foo/t1.7z'' = None"
    by (simp add: cold_machine_def)
  have ex: "EvExec ''7za'' [''x'', ''-bd'', ''/cache/foo/t1.7z'', ''-o/cache/foo/t1''] ''/cache/foo''
     \<in> set (snd (DownloadArtifact cold_machine ''foo-1'' ''http://x/foo-1.7z'' []))"
    by (simp add: cold_run)
  have ex_ok: "snd (exec_CombinedOutput cold_machine ''7za''
          [''x'', ''-bd'', ''/cache/foo/t1.7z'', ''-o/cache/foo/t1''] ''/cache/foo'') = None"
    by (simp add: cold_machine_def)
  have un: "EvUnpackTarXz ''/cache/node/t1.tar.xz'' ''/cache/node/t1''
     \<in> set (snd (DownloadArtifact cold_machine ''node'' ''10.4.0-linux-x64'' ''abc''))"
    by (simp add: node_cold_run)
  have un_ok: "pipeline_TarXz cold_machine ''/cache/node/t1.tar.xz'' ''/cache/node/t1'' = None"
    by (simp add: cold_machine_def)
  note v = every_remove_error_is_fatal[of "''/cache/foo/t1.7z''" vanished_machine "''foo-1''"
      "''http://x/foo-1.7z''" "[]"]
  note c = every_remove_error_is_fatal[of "''/cache/foo/t1.7z''" cold_machine "''foo-1''"
      "''http://x/foo-1.7z''" "[]"]
  note n = every_remove_error_is_fatal[of "''/cache/foo/t1.7z''" cold_machine "''node''"
      "''10.4.0-linux-x64''" "''abc''"]
  from v ev rm
  have 1: "fst (DownloadArtifact vanished_machine ''foo-1'' ''http://x/foo-1.7z'' []) =
     Return [] (Some (WithStack (NotExist ''remove'' ''/cache/foo/t1.7z'')))"
    by simp
  from c ev' rm'
  have 2: "\<exists>p. fst (DownloadArtifact cold_machine ''foo-1'' ''http://x/foo-1.7z'' []) = Return p None"
    by simp
  from c ex ex_ok
  have 3: "\<exists>archive tmp.
      [''x'', ''-bd'', ''/cache/foo/t1.7z'', ''-o/cache/foo/t1''] = [''x'', ''-bd'', archive, ''-o'' @ tmp] \<and>
      happens_before
        (EvExec ''7za'' [''x'', ''-bd'', ''/cache/foo/t1.7z'', ''-o/cache/foo/t1''] ''/cache/foo'')
        (EvRemove archive)
        (snd (DownloadArtifact cold_machine ''foo-1'' ''http://x/foo-1.7z'' []))"
    by blast
  from n un un_ok
  have 4: "happens_before (EvUnpackTarXz ''/cache/node/t1.tar.xz'' ''/cache/node/t1'')
     (EvRemove ''/cache/node/t1.tar.xz'')
     (snd (DownloadArtifact cold_machine ''node'' ''10.4.0-linux-x64'' ''abc''))"
    by blast
  from ev rm 1 ev' rm' 2 ex ex_ok 3 un un_ok 4 show ?thesis
    by (intro conjI)
qed

subsection \<open>The cache lookup\<close>

lemma warm_run:
  "DownloadArtifact warm_machine ''foo-1'' ''http://x/foo-1.7z'' [] =
   (Return ''/cache/foo/foo-1'' None,
    [EvStat ''/cache/foo/foo-1'', found_existing ''/cache/foo/foo-1''])"
  by code_simp

text \<open>
  Claim C4. The cache lookup is a hit exactly when the final path exists and is a directory
  or has a name that ends in the archive suffix, which is \<open>.tar\<close>; on a hit the call returns
  the final path at once. For every run that checks a path \<open>p\<close>: \<open>os.Stat\<close> answers that
  \<open>p\<close> exists, as a directory or with the suffix, exactly when the run is the check of
  \<open>p\<close>, the log line "found existing" and the result \<open>(p, nil)\<close>, with no download, no
  unpacking and no other call.
\<close>

theorem cache_hit_returns_at_once:
  assumes "EvStat p \<in> set (snd (DownloadArtifact w dirName url checksum))"
  shows "(\<exists>isDir. os_Stat w p = Inr isDir \<and> (isDir \<or> strings_HasSuffix p ''.tar'')) \<longleftrightarrow>
     DownloadArtifact w dirName url checksum = (Return p None, [EvStat p, found_existing p])"
proof (cases rule: DownloadArtifact_runs[of w dirName url checksum])
  case (aborted r)
  with assms show ?thesis by simp
next
  case (hit filePath isDir)
  with assms have "p = filePath" by (simp add: found_existing_def)
  with hit show ?thesis by auto
next
  case (unreadable filePath e)
  with assms have "p = filePath" by simp
  with unreadable show ?thesis by simp
next
  case (miss filePath n u c' cacheDir)
  from assms miss(3) have pf: "p = filePath"
    by simp
  with miss(1) have no: "\<not> (\<exists>isDir. os_Stat w p = Inr isDir \<and> (isDir \<or> strings_HasSuffix p ''.tar''))"
    by auto
  from stage_head[of w n u c' cacheDir filePath "[(''path'', LStr filePath)]"]
  obtain rest where
    "snd (DownloadArtifact_stage w n u c' cacheDir filePath [(''path'', LStr filePath)]) =
       EvMkdirAll cacheDir # rest" ..
  with miss(3) have "snd (DownloadArtifact w dirName url checksum) =
      EvStat filePath # EvMkdirAll cacheDir # rest"
    by simp
  then have "DownloadArtifact w dirName url checksum \<noteq> (Return p None, [EvStat p, found_existing p])"
    by (auto simp add: found_existing_def)
  with no show ?thesis by blast
qed

theorem cache_hit_returns_at_once_witness:
  "EvStat ''/cache/foo/foo-1''
     \<in> set (snd (DownloadArtifact warm_machine ''foo-1'' ''http://x/foo-1.7z'' [])) \<and>
   (\<exists>isDir. os_Stat warm_machine ''/cache/foo/foo-1'' = Inr isDir \<and>
      (isDir \<or> strings_HasSuffix ''/cache/foo/foo-1'' ''.tar'')) \<and>
   DownloadArtifact warm_machine ''foo-1'' ''http://x/foo-1.7z'' [] =
     (Return ''/cache/foo/foo-1'' None,
      [EvStat ''/cache/foo/foo-1'', found_existing ''/cache/foo/foo-1'']) \<and>
   EvStat ''/cache/foo/foo-1''
     \<in> set (snd (DownloadArtifact cold_machine ''foo-1'' ''http://x/foo-1.7z'' [])) \<and>
   \<not> (\<exists>isDir. os_Stat cold_machine ''/cache/foo/foo-1'' = Inr isDir \<and>
      (isDir \<or> strings_HasSuffix ''/cache/foo/foo-1'' ''.tar'')) \<and>
   DownloadArtifact cold_machine ''foo-1'' ''http://x/foo-1.7z'' [] \<noteq>
     (Return ''/cache/foo/foo-1'' None,
      [EvStat ''/cache/foo/foo-1'', found_existing ''/cache/foo/foo-1''])"
proof -
  have ev: "EvStat ''/cache/foo/foo-1''
     \<in> set (snd (DownloadArtifact warm_machine ''foo-1'' ''http://x/foo-1.7z'' []))"
    by (simp add: warm_run)
  have ev': "EvStat ''/cache/foo/foo-1''
     \<in> set (snd (DownloadArtifact cold_machine ''foo-1'' ''http://x/foo-1.7z'' []))"
    by (simp add: cold_run)
  have st: "os_Stat warm_machine ''/cache/foo/foo-1'' = Inr True"
    by (simp add: warm_machine_def)
  have st': "os_Stat cold_machine ''/cache/foo/foo-1'' = Inl (NotExist ''stat'' ''/cache/foo/foo-1'')"
    by (simp add: cold_machine_def)
  have hit: "\<exists>isDir. os_Stat warm_machine ''/cache/foo/foo-1'' = Inr isDir \<and>
      (isDir \<or> strings_HasSuffix ''/cache/foo/foo-1'' ''.tar'')"
    using st by blast
  have no: "\<not> (\<exists>isDir. os_Stat cold_machine ''/cache/foo/foo-1'' = Inr isDir \<and>
      (isDir \<or> strings_HasSuffix ''/cache/foo/foo-1'' ''.tar''))"
    using st' by simp
  from cache_hit_returns_at_once[OF ev] hit
  have r: "DownloadArtifact warm_machine ''foo-1'' ''http://x/foo-1.7z'' [] =
     (Return ''/cache/foo/foo-1'' None,
      [EvStat ''/cache/foo/foo-1'', found_existing ''/cache/foo/foo-1''])"
    by (rule iffD1)
  from cache_hit_returns_at_once[OF ev'] no
  have r': "DownloadArtifact cold_machine ''foo-1'' ''http://x/foo-1.7z'' [] \<noteq>
     (Return ''/cache/foo/foo-1'' None,
      [EvStat ''/cache/foo/foo-1'', found_existing ''/cache/foo/foo-1''])"
    by blast
  from ev hit r ev' no r' show ?thesis
    by (intro conjI)
qed

lemma locked_run:
  "DownloadArtifact locked_machine ''foo-1'' ''http://x/foo-1.7z'' [] =
   (Return [] (Some (cache_check_error (OsError ''permission denied'') ''/cache/foo/foo-1'')),
    [EvStat ''/cache/foo/foo-1''])"
  by code_simp

lemma locked_compressed_run:
  "DownloadCompressedArtifact locked_machine ''snap'' ''http://x/core.snap'' [] =
   (Return [] (Some (cache_check_error (OsError ''permission denied'') ''/cache/snap/core.snap'')),
    [EvStat ''/cache/snap/core.snap''])"
  by code_simp

text \<open>
  Claim C8. In the cache lookup of \<open>DownloadArtifact\<close> and of \<open>DownloadCompressedArtifact\<close>
  an error of \<open>os.Stat\<close> other than "does not exist" ends the call with that error, wrapped
  with a message that names the checked path; the error "does not exist" is a cache miss,
  after which the call goes on and creates the cache directory.
\<close>

theorem stat_error_aborts_unless_not_exist:
  "(EvStat p \<in> set (snd (DownloadArtifact w dirName url checksum)) \<and> os_Stat w p = Inl err \<longrightarrow>
     (if os_IsNotExist err
      then \<exists>dir rest. snd (DownloadArtifact w dirName url checksum) = EvStat p # EvMkdirAll dir # rest
      else DownloadArtifact w dirName url checksum =
             (Return [] (Some (WithMessage err (''error during cache check for path '' @ p))),
              [EvStat p]))) \<and>
   (EvStat p' \<in> set (snd (DownloadCompressedArtifact w subDir url' checksum')) \<and>
    os_Stat w p' = Inl err' \<longrightarrow>
     (if os_IsNotExist err'
      then \<exists>dir rest.
             snd (DownloadCompressedArtifact w subDir url' checksum') = EvStat p' # EvMkdirAll dir # rest
      else DownloadCompressedArtifact w subDir url' checksum' =
             (Return [] (Some (WithMessage err' (''error during cache check for path '' @ p'))),
              [EvStat p'])))"
proof (intro conjI impI)
  assume a: "EvStat p \<in> set (snd (DownloadArtifact w dirName url checksum)) \<and> os_Stat w p = Inl err"
  show "if os_IsNotExist err
      then \<exists>dir rest. snd (DownloadArtifact w dirName url checksum) = EvStat p # EvMkdirAll dir # rest
      else DownloadArtifact w dirName url checksum =
             (Return [] (Some (WithMessage err (''error during cache check for path '' @ p))),
              [EvStat p])"
  proof (cases rule: DownloadArtifact_runs[of w dirName url checksum])
    case (aborted r)
    with a show ?thesis by simp
  next
    case (hit filePath isDir)
    with a have "p = filePath" by (simp add: found_existing_def)
    with a hit(1) show ?thesis by simp
  next
    case (unreadable filePath e)
    with a have "p = filePath" by simp
    with a unreadable show ?thesis by (simp add: cache_check_error_def)
  next
    case (miss filePath n u c' cacheDir)
    from a miss(3) have pf: "p = filePath"
      by simp
    with a miss(2) have ne: "os_IsNotExist err"
      by simp
    from stage_head[of w n u c' cacheDir filePath "[(''path'', LStr filePath)]"]
    obtain rest where
      "snd (DownloadArtifact_stage w n u c' cacheDir filePath [(''path'', LStr filePath)]) =
         EvMkdirAll cacheDir # rest" ..
    with miss(3) pf have "snd (DownloadArtifact w dirName url checksum) =
        EvStat p # EvMkdirAll cacheDir # rest"
      by simp
    with ne show ?thesis by simp
  qed
next
  assume "EvStat p' \<in> set (snd (DownloadCompressedArtifact w subDir url' checksum')) \<and>
    os_Stat w p' = Inl err'"
  with compressed_stat[of p' w subDir url' checksum' err']
  show "if os_IsNotExist err'
      then \<exists>dir rest.
             snd (DownloadCompressedArtifact w subDir url' checksum') = EvStat p' # EvMkdirAll dir # rest
      else DownloadCompressedArtifact w subDir url' checksum' =
             (Return [] (Some (WithMessage err' (''error during cache check for path '' @ p'))),
              [EvStat p'])"
    by (simp add: cache_check_error_def)
qed

theorem stat_error_aborts_unless_not_exist_witness:
  "EvStat ''/cache/foo/foo-1''
     \<in> set (snd (DownloadArtifact locked_machine ''foo-1'' ''http://x/foo-1.7z'' [])) \<and>
   os_Stat locked_machine ''/cache/foo/foo-1'' = Inl (OsError ''permission denied'') \<and>
   DownloadArtifact locked_machine ''foo-1'' ''http://x/foo-1.7z'' [] =
     (Return [] (Some (WithMessage (OsError ''permission denied'')
         ''error during cache check for path /cache/foo/foo-1'')),
      [EvStat ''/cache/foo/foo-1'']) \<and>
   EvStat ''/cache/snap/core.snap''
     \<in> set (snd (DownloadCompressedArtifact locked_machine ''snap'' ''http://x/core.snap'' [])) \<and>
   DownloadCompressedArtifact locked_machine ''snap'' ''http://x/core.snap'' [] =
     (Return [] (Some (WithMessage (OsError ''permission denied'')
         ''error during cache check for path /cache/snap/core.snap'')),
      [EvStat ''/cache/snap/core.snap''])"
proof -
  have ev: "EvStat ''/cache/foo/foo-1''
     \<in> set (snd (DownloadArtifact locked_machine ''foo-1'' ''http://x/foo-1.7z'' []))"
    by (simp add: locked_run)
  have ev': "EvStat ''/cache/snap/core.snap''
     \<in> set (snd (DownloadCompressedArtifact locked_machine ''snap'' ''http://x/core.snap'' []))"
    by (simp add: locked_compressed_run)
  have st: "os_Stat locked_machine q = Inl (OsError ''permission denied'')" for q
    by (simp add: locked_machine_def)
  from stat_error_aborts_unless_not_exist[of "''/cache/foo/foo-1''" locked_machine "''foo-1''"
      "''http://x/foo-1.7z''" "[]" "OsError ''permission denied''" "''/cache/snap/core.snap''"
      "''snap''" "''http://x/core.snap''" "[]" "OsError ''permission denied''"]
    ev ev' st
  show ?thesis by simp
qed

subsection \<open>The final path and the node request\<close>

lemma stage_success_path:
  "fst (DownloadArtifact_stage w n url c cacheDir filePath lf) = Return q None \<longrightarrow> q = filePath"
  by (cases n)
     (auto simp add: DownloadArtifact_stage_def Let_def publish_result
      split: option.split sum.split)

lemma stage_returns:
  "\<exists>q e. fst (DownloadArtifact_stage w n url c cacheDir filePath lf) = Return q e"
  by (cases n)
     (auto simp add: DownloadArtifact_stage_def Let_def publish_result
      split: option.split sum.split)

lemma lookup_final_path:
  "final_path_of (DownloadArtifact_lookup w n url c cacheDir filePath) filePath"
proof (cases rule: lookup_cases[of w filePath n url c cacheDir])
  case (hit isDir)
  then show ?thesis by (simp add: final_path_of_def)
next
  case (unreadable err)
  then show ?thesis by (simp add: final_path_of_def)
next
  case miss
  with stage_success_path[of w n url c cacheDir filePath "[(''path'', LStr filePath)]"]
  show ?thesis by (simp add: final_path_of_def)
qed

lemma lookup_returns:
  "\<exists>q e. fst (DownloadArtifact_lookup w n url c cacheDir filePath) = Return q e"
proof (cases rule: lookup_cases[of w filePath n url c cacheDir])
  case (hit isDir)
  then show ?thesis by simp
next
  case (unreadable err)
  then show ?thesis by simp
next
  case miss
  with stage_returns[of w n url c cacheDir filePath "[(''path'', LStr filePath)]"]
  show ?thesis by simp
qed

lemma lookup_download:
  assumes "EvDownload u a c' \<in> set (snd (DownloadArtifact_lookup w n url c cacheDir filePath))"
  shows "u = url \<and> c' = c \<and>
    (\<exists>tmp. util_TempDir w cacheDir [] = Inr tmp \<and>
       a = tmp @ (if n then ''.tar.xz'' else ''.7z'') \<and>
       (n \<and> downloader_Download w u a c' = None \<longrightarrow>
          EvUnpackTarXz a tmp \<in> set (snd (DownloadArtifact_lookup w n url c cacheDir filePath))))"
proof (cases rule: lookup_cases[of w filePath n url c cacheDir])
  case (hit isDir)
  with assms show ?thesis by (simp add: found_existing_def)
next
  case (unreadable err)
  with assms show ?thesis by simp
next
  case miss
  with assms stage_download[of u a c' w n url c cacheDir filePath "[(''path'', LStr filePath)]"]
  show ?thesis by auto
qed

lemma lookup_node_no_exec:
  "EvExec prog args dir \<notin> set (snd (DownloadArtifact_lookup w True url c cacheDir filePath))"
proof (cases rule: lookup_cases[of w filePath True url c cacheDir])
  case (hit isDir)
  then show ?thesis by (simp add: found_existing_def)
next
  case (unreadable err)
  then show ?thesis by simp
next
  case miss
  with stage_node_no_exec[of prog args dir w url c cacheDir filePath "[(''path'', LStr filePath)]"]
  show ?thesis by simp
qed

lemma lookup_7za_no_pipeline:
  "EvUnpackTarXz a d \<notin> set (snd (DownloadArtifact_lookup w False url c cacheDir filePath))"
proof (cases rule: lookup_cases[of w filePath False url c cacheDir])
  case (hit isDir)
  then show ?thesis by (simp add: found_existing_def)
next
  case (unreadable err)
  then show ?thesis by simp
next
  case miss
  with stage_7za_no_pipeline[of a d w url c cacheDir filePath "[(''path'', LStr filePath)]"]
  show ?thesis by simp
qed

lemma DownloadArtifact_node:
  "DownloadArtifact w ''node'' url c = DownloadArtifact_resolve w ''node'' url c"
  by (rule DownloadArtifact_other) simp_all

lemma node_panic_run:
  "DownloadArtifact cold_machine ''node'' ''10.4.0'' ''abc'' = (Panic ''slice bounds out of range'', [])"
  by code_simp

lemma cold_cache_root: "GetCacheDirectory cold_machine ''electron-builder'' = Inr ''/cache''"
  by code_simp

text \<open>
  Claim C9. A \<open>node\<close> request whose url argument has no hyphen panics: \<open>strings.Index\<close>
  answers -1, the slice \<open>versionAndArch[0:-1]\<close> is out of range, and the call ends in a
  run-time panic before any call to the machine, not in an error value. With a hyphen in
  the url argument the call does not panic.
\<close>

theorem node_without_hyphen_panics:
  "(CHR ''-'' \<notin> set url \<longrightarrow>
      strings_Index url ''-'' = - 1 \<and>
      slice_to url (strings_Index url ''-'') = None \<and>
      DownloadArtifact w ''node'' url checksum = (Panic ''slice bounds out of range'', [])) \<and>
   (CHR ''-'' \<in> set url \<longrightarrow>
      (\<exists>p e. fst (DownloadArtifact w ''node'' url checksum) = Return p e))"
proof (intro conjI impI)
  assume "CHR ''-'' \<notin> set url"
  then show "strings_Index url ''-'' = - 1"
    by (simp add: strings_Index_hyphen)
  then show "slice_to url (strings_Index url ''-'') = None"
    by (simp add: slice_to_def)
  from \<open>CHR ''-'' \<notin> set url\<close>
  show "DownloadArtifact w ''node'' url checksum = (Panic ''slice bounds out of range'', [])"
    by (simp add: DownloadArtifact_node resolve_node_panic)
next
  assume h: "CHR ''-'' \<in> set url"
  show "\<exists>p e. fst (DownloadArtifact w ''node'' url checksum) = Return p e"
  proof (cases "GetCacheDirectory w ''electron-builder''")
    case (Inl err)
    with h show ?thesis
      by (simp add: DownloadArtifact_node resolve_no_cache)
  next
    case (Inr root)
    with h show ?thesis
      by (simp add: DownloadArtifact_node resolve_node lookup_returns)
  qed
qed

theorem node_without_hyphen_panics_witness:
  "CHR ''-'' \<notin> set ''10.4.0'' \<and>
   strings_Index ''10.4.0'' ''-'' = - 1 \<and>
   DownloadArtifact cold_machine ''node'' ''10.4.0'' ''abc'' = (Panic ''slice bounds out of range'', []) \<and>
   CHR ''-'' \<in> set ''10.4.0-linux-x64'' \<and>
   (\<exists>p e. fst (DownloadArtifact cold_machine ''node'' ''10.4.0-linux-x64'' ''abc'') = Return p e)"
proof -
  have n: "CHR ''-'' \<notin> set ''10.4.0''" by simp
  have y: "CHR ''-'' \<in> set ''10.4.0-linux-x64''" by simp
  from node_without_hyphen_panics[of "''10.4.0''" cold_machine "''abc''"] n
  have 1: "strings_Index ''10.4.0'' ''-'' = - 1 \<and>
      DownloadArtifact cold_machine ''node'' ''10.4.0'' ''abc'' = (Panic ''slice bounds out of range'', [])"
    by blast
  from node_without_hyphen_panics[of "''10.4.0-linux-x64''" cold_machine "''abc''"] y
  have 2: "\<exists>p e. fst (DownloadArtifact cold_machine ''node'' ''10.4.0-linux-x64'' ''abc'') = Return p e"
    by blast
  from n y 1 2 show ?thesis by blast
qed

text \<open>
  Claim C6. For the name \<open>node\<close> the url argument is a version-and-architecture token: the
  archive is downloaded from \<open>https://nodejs.org/dist/v\<close> + version + \<open>/node-v\<close> + token +
  \<open>.tar.xz\<close>, where the version is the token up to its first hyphen, the cache directory
  name is \<open>node-\<close> + token, the temporary archive has the suffix \<open>.tar.xz\<close>, and it is
  unpacked by \<open>unpackTarXz\<close>, never by the 7za extraction of the other requests, whose
  temporary archive has the suffix \<open>.7z\<close>.
\<close>

theorem node_request_is_rewritten:
  "(CHR ''-'' \<in> set token \<and> GetCacheDirectory w ''electron-builder'' = Inr cacheRoot \<longrightarrow>
      final_path_of (DownloadArtifact w ''node'' token checksum)
        (filepath_Join w [filepath_Join w [cacheRoot, ''node''], ''node-'' @ token]) \<and>
      (\<forall>u a c. EvDownload u a c \<in> set (snd (DownloadArtifact w ''node'' token checksum)) \<longrightarrow>
         u = ''https://nodejs.org/dist/v'' @ takeWhile (\<lambda>c. c \<noteq> CHR ''-'') token
               @ ''/node-v'' @ token @ ''.tar.xz'' \<and>
         c = checksum \<and>
         (\<exists>tmp. util_TempDir w (filepath_Join w [cacheRoot, ''node'']) [] = Inr tmp \<and>
            a = tmp @ ''.tar.xz'' \<and>
            (downloader_Download w u a c = None \<longrightarrow>
               EvUnpackTarXz a tmp \<in> set (snd (DownloadArtifact w ''node'' token checksum))))) \<and>
      (\<forall>prog args dir. EvExec prog args dir \<notin> set (snd (DownloadArtifact w ''node'' token checksum)))) \<and>
   (dirName \<noteq> ''node'' \<and> dirName \<noteq> ''fpm'' \<and> dirName \<noteq> ''zstd'' \<longrightarrow>
      (\<forall>u a c. EvDownload u a c \<in> set (snd (DownloadArtifact w dirName url' checksum')) \<longrightarrow>
         u = url' \<and> c = checksum' \<and> (\<exists>tmp. a = tmp @ ''.7z'')) \<and>
      (\<forall>a d. EvUnpackTarXz a d \<notin> set (snd (DownloadArtifact w dirName url' checksum'))))"
proof (intro conjI impI allI)
  assume h: "CHR ''-'' \<in> set token \<and> GetCacheDirectory w ''electron-builder'' = Inr cacheRoot"
  then have eq: "DownloadArtifact w ''node'' token checksum =
     DownloadArtifact_lookup w True (node_url token) checksum (filepath_Join w [cacheRoot, ''node''])
       (filepath_Join w [filepath_Join w [cacheRoot, ''node''], ''node-'' @ token])"
    by (simp add: DownloadArtifact_node resolve_node)
  show "final_path_of (DownloadArtifact w ''node'' token checksum)
        (filepath_Join w [filepath_Join w [cacheRoot, ''node''], ''node-'' @ token])"
    unfolding eq by (rule lookup_final_path)
  show "EvExec prog args dir \<notin> set (snd (DownloadArtifact w ''node'' token checksum))"
    for prog args dir
    unfolding eq by (rule lookup_node_no_exec)
  fix u a c
  assume "EvDownload u a c \<in> set (snd (DownloadArtifact w ''node'' token checksum))"
  from lookup_download[OF this[unfolded eq]]
  have d: "u = node_url token \<and> c = checksum \<and>
    (\<exists>tmp. util_TempDir w (filepath_Join w [cacheRoot, ''node'']) [] = Inr tmp \<and>
       a = tmp @ ''.tar.xz'' \<and>
       (downloader_Download w u a c = None \<longrightarrow>
          EvUnpackTarXz a tmp \<in> set (snd (DownloadArtifact w ''node'' token checksum))))"
    unfolding eq by auto
  then show "u = ''https://nodejs.org/dist/v'' @ takeWhile (\<lambda>c. c \<noteq> CHR ''-'') token
               @ ''/node-v'' @ token @ ''.tar.xz''"
    by (simp add: node_url_def)
  from d show "c = checksum" by simp
  from d show "\<exists>tmp. util_TempDir w (filepath_Join w [cacheRoot, ''node'']) [] = Inr tmp \<and>
            a = tmp @ ''.tar.xz'' \<and>
            (downloader_Download w u a c = None \<longrightarrow>
               EvUnpackTarXz a tmp \<in> set (snd (DownloadArtifact w ''node'' token checksum)))"
    by blast
next
  assume h: "dirName \<noteq> ''node'' \<and> dirName \<noteq> ''fpm'' \<and> dirName \<noteq> ''zstd''"
  then have eq: "DownloadArtifact w dirName url' checksum' =
      DownloadArtifact_resolve w dirName url' checksum'"
    by (simp add: DownloadArtifact_other)
  have cases: "(\<exists>r. DownloadArtifact w dirName url' checksum' = (r, [])) \<or>
     (\<exists>cacheDir filePath. DownloadArtifact w dirName url' checksum' =
        DownloadArtifact_lookup w False url' checksum' cacheDir filePath)"
  proof (cases "GetCacheDirectory w ''electron-builder''")
    case (Inl err)
    with h show ?thesis
      by (simp add: eq resolve_no_cache)
  next
    case (Inr root)
    with h resolve_plain[of dirName w root url' checksum'] show ?thesis
      unfolding eq by metis
  qed
  show "EvUnpackTarXz a d \<notin> set (snd (DownloadArtifact w dirName url' checksum'))" for a d
    using cases lookup_7za_no_pipeline[of a d w url' checksum'] by auto
  fix u a c
  assume ev: "EvDownload u a c \<in> set (snd (DownloadArtifact w dirName url' checksum'))"
  with cases obtain cacheDir filePath where
    l: "DownloadArtifact w dirName url' checksum' =
        DownloadArtifact_lookup w False url' checksum' cacheDir filePath"
    by auto
  from lookup_download[OF ev[unfolded l]]
  show "u = url'" and "c = checksum'" and "\<exists>tmp. a = tmp @ ''.7z''"
    by auto
qed

lemma cold_join [simp]: "filepath_Join cold_machine = slash_join"
  by (simp add: cold_machine_def)

lemma warm_join [simp]: "filepath_Join warm_machine = slash_join"
  by (simp add: warm_machine_def cold_machine_def)

theorem node_request_is_rewritten_witness:
  "CHR ''-'' \<in> set ''10.4.0-linux-x64'' \<and>
   GetCacheDirectory cold_machine ''electron-builder'' = Inr ''/cache'' \<and>
   final_path_of (DownloadArtifact cold_machine ''node'' ''10.4.0-linux-x64'' ''abc'')
     ''/cache/node/node-10.4.0-linux-x64'' \<and>
   EvDownload ''https://nodejs.org/dist/v10.4.0/node-v10.4.0-linux-x64.tar.xz''
       ''/cache/node/t1.tar.xz'' ''abc''
     \<in> set (snd (DownloadArtifact cold_machine ''node'' ''10.4.0-linux-x64'' ''abc'')) \<and>
   EvUnpackTarXz ''/cache/node/t1.tar.xz'' ''/cache/node/t1''
     \<in> set (snd (DownloadArtifact cold_machine ''node'' ''10.4.0-linux-x64'' ''abc'')) \<and>
   EvDownload ''http://x/foo-1.7z'' ''/cache/foo/t1.7z'' []
     \<in> set (snd (DownloadArtifact cold_machine ''foo-1'' ''http://x/foo-1.7z'' [])) \<and>
   (\<forall>a d. EvUnpackTarXz a d
     \<notin> set (snd (DownloadArtifact cold_machine ''foo-1'' ''http://x/foo-1.7z'' [])))"
proof -
  have h: "CHR ''-'' \<in> set ''10.4.0-linux-x64'' \<and>
      GetCacheDirectory cold_machine ''electron-builder'' = Inr ''/cache''"
    by (simp add: cold_cache_root)
  have g: "''foo-1'' \<noteq> ''node'' \<and> ''foo-1'' \<noteq> ''fpm'' \<and> ''foo-1'' \<noteq> ''zstd''"
    by simp
  note t = node_request_is_rewritten[of "''10.4.0-linux-x64''" cold_machine "''/cache''" "''abc''"
      "''foo-1''" "''http://x/foo-1.7z''" "[]"]
  have j: "filepath_Join cold_machine [filepath_Join cold_machine [''/cache'', ''node''],
      ''node-'' @ ''10.4.0-linux-x64''] = ''/cache/node/node-10.4.0-linux-x64''"
    by (simp add: slash_join_def)
  from t h have "final_path_of (DownloadArtifact cold_machine ''node'' ''10.4.0-linux-x64'' ''abc'')
      (filepath_Join cold_machine [filepath_Join cold_machine [''/cache'', ''node''],
         ''node-'' @ ''10.4.0-linux-x64''])"
    by (rule conjunct1[OF mp[OF conjunct1]])
  then have 1: "final_path_of (DownloadArtifact cold_machine ''node'' ''10.4.0-linux-x64'' ''abc'')
     ''/cache/node/node-10.4.0-linux-x64''"
    by (simp only: j)
  from t g have 2: "\<forall>a d. EvUnpackTarXz a d
     \<notin> set (snd (DownloadArtifact cold_machine ''foo-1'' ''http://x/foo-1.7z'' []))"
    by (rule conjunct2[OF mp[OF conjunct2]])
  have 3: "EvDownload ''https://nodejs.org/dist/v10.4.0/node-v10.4.0-linux-x64.tar.xz''
       ''/cache/node/t1.tar.xz'' ''abc''
     \<in> set (snd (DownloadArtifact cold_machine ''node'' ''10.4.0-linux-x64'' ''abc''))"
    and 4: "EvUnpackTarXz ''/cache/node/t1.tar.xz'' ''/cache/node/t1''
     \<in> set (snd (DownloadArtifact cold_machine ''node'' ''10.4.0-linux-x64'' ''abc''))"
    by (simp_all add: node_cold_run)
  have 5: "EvDownload ''http://x/foo-1.7z'' ''/cache/foo/t1.7z'' []
     \<in> set (snd (DownloadArtifact cold_machine ''foo-1'' ''http://x/foo-1.7z'' []))"
    by (simp add: cold_run)
  from h 1 3 4 5 2 show ?thesis
    by (intro conjI) (simp_all only: simp_thms)
qed

lemma zstd_warm_run:
  "DownloadArtifact warm_machine ''zstd'' [] [] =
   (Return ''/cache/zstd/zstd-1.3.4-linux-x64'' None,
    [EvStat ''/cache/zstd/zstd-1.3.4-linux-x64'',
     found_existing ''/cache/zstd/zstd-1.3.4-linux-x64''])"
  by code_simp

lemma warm_cache_root: "GetCacheDirectory warm_machine ''electron-builder'' = Inr ''/cache''"
  by code_simp

text \<open>
  Claim C3, as the specification states it: a directory name without a hyphen has the
  final path \<open>cacheRoot/dirName/dirName\<close>, "so the request name \<open>zstd\<close> yields
  \<open>cacheRoot/zstd/zstd\<close>". It does not: \<open>DownloadArtifact\<close> replaces the request name
  \<open>zstd\<close> by the catalogue entry before any path is computed, and on a Linux machine on
  amd64 with the cache root \<open>/cache\<close> the call works on \<open>/cache/zstd/zstd-1.3.4-linux-x64\<close>
  and returns it.
\<close>

theorem zstd_request_is_not_its_own_family:
  "GetCacheDirectory warm_machine ''electron-builder'' = Inr ''/cache'' \<and>
   CHR ''-'' \<notin> set ''zstd'' \<and>
   filepath_Join warm_machine [filepath_Join warm_machine [''/cache'', ''zstd''], ''zstd''] =
     ''/cache/zstd/zstd'' \<and>
   fst (DownloadArtifact warm_machine ''zstd'' [] []) =
     Return ''/cache/zstd/zstd-1.3.4-linux-x64'' None \<and>
   final_path_of (DownloadArtifact warm_machine ''zstd'' [] []) ''/cache/zstd/zstd-1.3.4-linux-x64'' \<and>
   \<not> final_path_of (DownloadArtifact warm_machine ''zstd'' [] []) ''/cache/zstd/zstd''"
  by (simp add: warm_cache_root zstd_warm_run final_path_of_def slash_join_def)

text \<open>
  Claim C3, amended. For every request whose name is neither \<open>fpm\<close> nor \<open>zstd\<close> (these two
  names are replaced by a catalogue entry before any path is computed), the final path
  follows the family rule on the derived directory name \<open>d\<close>, which is the name, \<open>node-\<close> +
  url for a \<open>node\<close> request, and the base name of the URL without its extension when the
  name is empty: when the first hyphen of \<open>d\<close> comes after at least one character, the final
  path is \<open>cacheRoot/prefix/d\<close> with the prefix before that hyphen; when \<open>d\<close> has no hyphen,
  or begins with one, it is \<open>cacheRoot/d/d\<close>. So \<open>fpm-1.9.3-2.3.1-linux-x86_64\<close> yields
  \<open>cacheRoot/fpm/fpm-1.9.3-2.3.1-linux-x86_64\<close>, and the name \<open>zstd\<close> derived from the URL of
  a request with an empty name yields \<open>cacheRoot/zstd/zstd\<close>.
\<close>

theorem final_path_follows_family_rule:
  assumes "dirName \<noteq> ''fpm''" and "dirName \<noteq> ''zstd''"
    and "dirName = ''node'' \<longrightarrow> CHR ''-'' \<in> set url"
    and "GetCacheDirectory w ''electron-builder'' = Inr cacheRoot"
    and "d = (if dirName = ''node'' then ''node-'' @ url else derived_name dirName url)"
  shows "(CHR ''-'' \<in> set d \<and> hd d \<noteq> CHR ''-'' \<longrightarrow>
      final_path_of (DownloadArtifact w dirName url checksum)
        (filepath_Join w [filepath_Join w [cacheRoot, takeWhile (\<lambda>c. c \<noteq> CHR ''-'') d], d])) \<and>
     (CHR ''-'' \<notin> set d \<or> hd d = CHR ''-'' \<longrightarrow>
      final_path_of (DownloadArtifact w dirName url checksum)
        (filepath_Join w [filepath_Join w [cacheRoot, d], d]))"
proof (cases "dirName = ''node''")
  case True
  with assms have "DownloadArtifact w dirName url checksum =
     DownloadArtifact_lookup w True (node_url url) checksum (filepath_Join w [cacheRoot, ''node''])
       (filepath_Join w [filepath_Join w [cacheRoot, ''node''], ''node-'' @ url])"
    by (simp add: DownloadArtifact_node resolve_node)
  with lookup_final_path[of w True "node_url url" checksum "filepath_Join w [cacheRoot, ''node'']"
      "filepath_Join w [filepath_Join w [cacheRoot, ''node''], ''node-'' @ url]"]
  have "final_path_of (DownloadArtifact w dirName url checksum)
      (filepath_Join w [filepath_Join w [cacheRoot, ''node''], ''node-'' @ url])"
    by simp
  with True assms(5) show ?thesis by simp
next
  case False
  with assms have "DownloadArtifact w dirName url checksum =
     DownloadArtifact_lookup w False url checksum (family_path w cacheRoot d)
       (filepath_Join w [family_path w cacheRoot d, d])"
    by (simp add: DownloadArtifact_other resolve_plain)
  with lookup_final_path[of w False url checksum "family_path w cacheRoot d"
      "filepath_Join w [family_path w cacheRoot d, d]"]
  have "final_path_of (DownloadArtifact w dirName url checksum)
      (filepath_Join w [family_path w cacheRoot d, d])"
    by simp
  then show ?thesis by (auto simp add: family_path_def)
qed

lemma derived_zstd: "derived_name [] ''https://example.org/dl/zstd.7z'' = ''zstd''"
  by code_simp

theorem final_path_follows_family_rule_witness:
  "final_path_of
     (DownloadArtifact cold_machine ''fpm-1.9.3-2.3.1-linux-x86_64'' ''http://x/fpm.7z'' [])
     ''/cache/fpm/fpm-1.9.3-2.3.1-linux-x86_64'' \<and>
   final_path_of (DownloadArtifact cold_machine [] ''https://example.org/dl/zstd.7z'' [])
     ''/cache/zstd/zstd''"
proof -
  let ?n = "''fpm-1.9.3-2.3.1-linux-x86_64''"
  have d1: "?n = (if ?n = ''node'' then ''node-'' @ ''http://x/fpm.7z''
      else derived_name ?n ''http://x/fpm.7z'')"
    by (simp add: derived_name_def)
  have d2: "''zstd'' = (if [] = ''node'' then ''node-'' @ ''https://example.org/dl/zstd.7z''
      else derived_name [] ''https://example.org/dl/zstd.7z'')"
    by (simp add: derived_zstd)
  from final_path_follows_family_rule[of ?n "''http://x/fpm.7z''" cold_machine "''/cache''" ?n "[]",
      OF _ _ _ cold_cache_root d1]
  have 1: "final_path_of (DownloadArtifact cold_machine ?n ''http://x/fpm.7z'' [])
     (filepath_Join cold_machine [filepath_Join cold_machine
        [''/cache'', takeWhile (\<lambda>c. c \<noteq> CHR ''-'') ?n], ?n])"
    by simp
  from final_path_follows_family_rule[of "[]" "''https://example.org/dl/zstd.7z''" cold_machine
      "''/cache''" "''zstd''" "[]", OF _ _ _ cold_cache_root d2]
  have 2: "final_path_of (DownloadArtifact cold_machine [] ''https://example.org/dl/zstd.7z'' [])
     (filepath_Join cold_machine [filepath_Join cold_machine [''/cache'', ''zstd''], ''zstd''])"
    by simp
  from 1 2 show ?thesis
    by (simp add: slash_join_def)
qed

subsection \<open>Tools without a checksum\<close>

lemma resolve_download:
  "EvDownload u a c' \<in> set (snd (DownloadArtifact_resolve w d url c)) \<longrightarrow> c' = c"
proof (cases rule: resolve_cases[of w d url c])
  case (aborted r)
  then show ?thesis by simp
next
  case (lookup n u' cacheDir filePath)
  with lookup_download[of u a c' w n u' c cacheDir filePath] show ?thesis by auto
qed

lemma unlisted_checksum:
  "registered_checksum (zstd_descriptor \<lparr> linux := Map.empty \<rparr>) (os_qualifier ''linux'')
     (normalized_arch (runtime_GOARCH cold_machine)) = []"
  by code_simp

lemma listed_run:
  "DownloadTool cold_machine zstd_descriptor ''linux'' =
   (Return ''/cache/zstd/zstd-1.3.4-linux-x64'' None,
    [EvStat ''/cache/zstd/zstd-1.3.4-linux-x64'', EvMkdirAll ''/cache/zstd'',
     EvLog Info ''downloading''
       [(''path'', LStr ''/cache/zstd/zstd-1.3.4-linux-x64''),
        (''url'', LStr (releases @ ''zstd-1.3.4/zstd-v1.3.4-linux-x64.7z''))],
     EvTempDir ''/cache/zstd'' [],
     EvDownload (releases @ ''zstd-1.3.4/zstd-v1.3.4-linux-x64.7z'') ''/cache/zstd/t1.7z''
       ''C1TcuuN/0nNvHMwfkKmE8rgsDxkeSbGoV4DMSf4kIJIO4mNp+PUayYeBf4h3usScsWfvX70Jvg5v3yt1FySTDg=='',
     EvExec ''7za'' [''x'', ''-bd'', ''/cache/zstd/t1.7z'', ''-o/cache/zstd/t1''] ''/cache/zstd'',
     EvLog Debug [] [], EvRemove ''/cache/zstd/t1.7z'',
     EvRename ''/cache/zstd/t1'' ''/cache/zstd/zstd-1.3.4-linux-x64'',
     EvLog Debug ''downloaded'' [(''path'', LStr ''/cache/zstd/zstd-1.3.4-linux-x64'')]])"
  by code_simp

text \<open>
  Claim C5. \<open>DownloadTool\<close> normalises the architecture of the machine (\<open>arm\<close> to \<open>armv7\<close>,
  \<open>arm64\<close> to \<open>armv8\<close>, \<open>amd64\<close> to \<open>x64\<close>) and looks the checksum up in the descriptor. When
  no checksum is registered for the platform and architecture it returns the error
  "Checksum not specified" without any call to the machine; every download that a call of
  \<open>DownloadTool\<close> attempts carries the registered checksum, which is not empty.
\<close>

theorem tool_without_checksum_is_refused:
  "(registered_checksum descriptor (os_qualifier osName) (normalized_arch (runtime_GOARCH w)) = [] \<longrightarrow>
      DownloadTool w descriptor osName =
        (Return [] (Some (Errorf (''Checksum not specified for '' @ osName @ '':''
            @ normalized_arch (runtime_GOARCH w)))), [])) \<and>
   (\<forall>u a c. EvDownload u a c \<in> set (snd (DownloadTool w descriptor osName)) \<longrightarrow>
      c \<noteq> [] \<and>
      c = registered_checksum descriptor (os_qualifier osName) (normalized_arch (runtime_GOARCH w)))"
proof (cases "registered_checksum descriptor (os_qualifier osName)
    (normalized_arch (runtime_GOARCH w)) = []")
  case True
  then show ?thesis
    by (simp add: DownloadTool_refused)
next
  case False
  from DownloadTool_accepted[OF False] obtain d u where
    eq: "DownloadTool w descriptor osName = DownloadArtifact_resolve w d u
       (registered_checksum descriptor (os_qualifier osName) (normalized_arch (runtime_GOARCH w)))"
    by blast
  have "c = registered_checksum descriptor (os_qualifier osName) (normalized_arch (runtime_GOARCH w))"
    if "EvDownload u' a c \<in> set (snd (DownloadTool w descriptor osName))" for u' a c
    using that resolve_download[of u' a c w d u] unfolding eq by blast
  with False show ?thesis by metis
qed

theorem tool_without_checksum_is_refused_witness:
  "registered_checksum (zstd_descriptor \<lparr> linux := Map.empty \<rparr>) (os_qualifier ''linux'')
     (normalized_arch (runtime_GOARCH cold_machine)) = [] \<and>
   DownloadTool cold_machine (zstd_descriptor \<lparr> linux := Map.empty \<rparr>) ''linux'' =
     (Return [] (Some (Errorf ''Checksum not specified for linux:x64'')), []) \<and>
   EvDownload (releases @ ''zstd-1.3.4/zstd-v1.3.4-linux-x64.7z'') ''/cache/zstd/t1.7z''
       ''C1TcuuN/0nNvHMwfkKmE8rgsDxkeSbGoV4DMSf4kIJIO4mNp+PUayYeBf4h3usScsWfvX70Jvg5v3yt1FySTDg==''
     \<in> set (snd (DownloadTool cold_machine zstd_descriptor ''linux'')) \<and>
   registered_checksum zstd_descriptor (os_qualifier ''linux'')
     (normalized_arch (runtime_GOARCH cold_machine)) =
     ''C1TcuuN/0nNvHMwfkKmE8rgsDxkeSbGoV4DMSf4kIJIO4mNp+PUayYeBf4h3usScsWfvX70Jvg5v3yt1FySTDg==''"
proof -
  have arch: "normalized_arch (runtime_GOARCH cold_machine) = ''x64''"
    by code_simp
  from tool_without_checksum_is_refused[of "zstd_descriptor \<lparr> linux := Map.empty \<rparr>" "''linux''"
      cold_machine] unlisted_checksum
  have 1: "DownloadTool cold_machine (zstd_descriptor \<lparr> linux := Map.empty \<rparr>) ''linux'' =
     (Return [] (Some (Errorf (''Checksum not specified for '' @ ''linux'' @ '':''
            @ normalized_arch (runtime_GOARCH cold_machine)))), [])"
    by blast
  have ev: "EvDownload (releases @ ''zstd-1.3.4/zstd-v1.3.4-linux-x64.7z'') ''/cache/zstd/t1.7z''
       ''C1TcuuN/0nNvHMwfkKmE8rgsDxkeSbGoV4DMSf4kIJIO4mNp+PUayYeBf4h3usScsWfvX70Jvg5v3yt1FySTDg==''
     \<in> set (snd (DownloadTool cold_machine zstd_descriptor ''linux''))"
    by (simp add: listed_run)
  from tool_without_checksum_is_refused[of zstd_descriptor "''linux''" cold_machine] ev
  have 2: "''C1TcuuN/0nNvHMwfkKmE8rgsDxkeSbGoV4DMSf4kIJIO4mNp+PUayYeBf4h3usScsWfvX70Jvg5v3yt1FySTDg=='' =
     registered_checksum zstd_descriptor (os_qualifier ''linux'')
       (normalized_arch (runtime_GOARCH cold_machine))"
    by blast
  from unlisted_checksum 1 ev 2 show ?thesis
    by (simp add: arch)
qed

subsection \<open>The cache root\<close>

text \<open>
  Claim C7. When \<open>ELECTRON_BUILDER_CACHE\<close> is not set, the system is not macOS and it is
  not Windows with \<open>LOCALAPPDATA\<close> set, \<open>GetCacheDirectory\<close> returns
  \<open>home/.cache/electron-builder\<close> whatever its parameter is (or the error of the home
  directory lookup); on macOS it returns \<open>home/Library/Caches/\<close> followed by the parameter.
\<close>

theorem cache_directory_ignores_namespace_off_mac:
  "(os_Getenv w ''ELECTRON_BUILDER_CACHE'' = [] \<and> runtime_GOOS w \<noteq> ''darwin'' \<and>
    \<not> (runtime_GOOS w = ''windows'' \<and> os_Getenv w ''LOCALAPPDATA'' \<noteq> []) \<longrightarrow>
      GetCacheDirectory w namespace =
        (case homedir_Dir w of
           Inl err \<Rightarrow> Inl (WithStack err)
         | Inr home \<Rightarrow> Inr (filepath_Join w [home, ''.cache'', ''electron-builder'']))) \<and>
   (os_Getenv w ''ELECTRON_BUILDER_CACHE'' = [] \<and> runtime_GOOS w = ''darwin'' \<longrightarrow>
      GetCacheDirectory w namespace =
        (case homedir_Dir w of
           Inl err \<Rightarrow> Inl (WithStack err)
         | Inr home \<Rightarrow> Inr (filepath_Join w [home, ''Library'', ''Caches'', namespace])))"
  by (auto simp add: GetCacheDirectory_def Let_def)

theorem cache_directory_ignores_namespace_off_mac_witness:
  "os_Getenv home_machine ''ELECTRON_BUILDER_CACHE'' = [] \<and>
   runtime_GOOS home_machine = ''linux'' \<and>
   GetCacheDirectory home_machine ''one'' = Inr ''/home/dev/.cache/electron-builder'' \<and>
   GetCacheDirectory home_machine ''another'' = Inr ''/home/dev/.cache/electron-builder'' \<and>
   os_Getenv mac_machine ''ELECTRON_BUILDER_CACHE'' = [] \<and>
   runtime_GOOS mac_machine = ''darwin'' \<and>
   GetCacheDirectory mac_machine ''one'' = Inr ''/home/dev/Library/Caches/one'' \<and>
   GetCacheDirectory mac_machine ''another'' = Inr ''/home/dev/Library/Caches/another''"
proof -
  have l: "os_Getenv home_machine ''ELECTRON_BUILDER_CACHE'' = [] \<and>
      runtime_GOOS home_machine \<noteq> ''darwin'' \<and>
      \<not> (runtime_GOOS home_machine = ''windows'' \<and> os_Getenv home_machine ''LOCALAPPDATA'' \<noteq> [])"
    by (simp add: home_machine_def cold_machine_def)
  have m: "os_Getenv mac_machine ''ELECTRON_BUILDER_CACHE'' = [] \<and>
      runtime_GOOS mac_machine = ''darwin''"
    by (simp add: mac_machine_def cold_machine_def)
  have hl: "homedir_Dir home_machine = Inr ''/home/dev''" "filepath_Join home_machine = slash_join"
    "runtime_GOOS home_machine = ''linux''"
    by (simp_all add: home_machine_def cold_machine_def)
  have hm: "homedir_Dir mac_machine = Inr ''/home/dev''" "filepath_Join mac_machine = slash_join"
    by (simp_all add: mac_machine_def cold_machine_def)
  from cache_directory_ignores_namespace_off_mac[of home_machine "''one''"]
    cache_directory_ignores_namespace_off_mac[of home_machine "''another''"]
    cache_directory_ignores_namespace_off_mac[of mac_machine "''one''"]
    cache_directory_ignores_namespace_off_mac[of mac_machine "''another''"] l m
  show ?thesis
    by (simp add: hl hm slash_join_def)
qed

end
